theory Spec2Isabelle
  imports Complex_Main
begin

section \<open>JavaScript values\<close>

text \<open>
  The worker in \<^verbatim>\<open>functions/api/weather.js\<close> handles loosely typed data: the
  upstream payload and the stored history are whatever \<^verbatim>\<open>JSON.parse\<close> returns. The
  model therefore works on untyped JavaScript values.

  A Number is \<open>NaN\<close>, an infinity or a finite value. Finite values are exact reals:
  the rounding of IEEE doubles (and the sign of zero) is not modelled. Strings are lists
  of 8-bit characters, so only ASCII text is represented faithfully.
\<close>

datatype jsnum = NaN | PInf | NInf | Fin real

datatype jsval =
    JUndefined
  | JNull
  | JBool bool
  | JNum jsnum
  | JStr string
  | JArr "jsval list"
  | JObj "(string \<times> jsval) list"

text \<open>
  An Error object: its \<^verbatim>\<open>name\<close> and its \<^verbatim>\<open>message\<close>. The message of an error that
  the runtime raises itself differs from one runtime to the next; the model fixes one.
\<close>

datatype js_error = JsError (err_name: string) (err_message: string)

text \<open>A computation that may throw yields \<open>Inl\<close> of the thrown error.\<close>

definition bind_r :: "js_error + 'a \<Rightarrow> ('a \<Rightarrow> js_error + 'b) \<Rightarrow> js_error + 'b" where
  "bind_r m f = (case m of Inl e \<Rightarrow> Inl e | Inr x \<Rightarrow> f x)"

subsection \<open>Arithmetic on Numbers\<close>

fun js_neg :: "jsnum \<Rightarrow> jsnum" where
  "js_neg NaN = NaN"
| "js_neg PInf = NInf"
| "js_neg NInf = PInf"
| "js_neg (Fin x) = Fin (- x)"

fun js_sub :: "jsnum \<Rightarrow> jsnum \<Rightarrow> jsnum" where
  "js_sub (Fin x) (Fin y) = Fin (x - y)"
| "js_sub NaN _ = NaN"
| "js_sub _ NaN = NaN"
| "js_sub PInf PInf = NaN"
| "js_sub NInf NInf = NaN"
| "js_sub PInf _ = PInf"
| "js_sub NInf _ = NInf"
| "js_sub (Fin _) PInf = NInf"
| "js_sub (Fin _) NInf = PInf"

fun js_mul :: "jsnum \<Rightarrow> jsnum \<Rightarrow> jsnum" where
  "js_mul (Fin x) (Fin y) = Fin (x * y)"
| "js_mul NaN _ = NaN"
| "js_mul _ NaN = NaN"
| "js_mul (Fin x) i = (if x = 0 then NaN else if 0 < x then i else js_neg i)"
| "js_mul i (Fin y) = (if y = 0 then NaN else if 0 < y then i else js_neg i)"
| "js_mul PInf i = i"
| "js_mul NInf i = js_neg i"

text \<open>Division; a zero divisor is taken to be \<open>+0\<close>.\<close>

fun js_div :: "jsnum \<Rightarrow> jsnum \<Rightarrow> jsnum" where
  "js_div (Fin x) (Fin y) =
     (if y = 0 then (if x = 0 then NaN else if 0 < x then PInf else NInf) else Fin (x / y))"
| "js_div NaN _ = NaN"
| "js_div _ NaN = NaN"
| "js_div (Fin _) _ = Fin 0"
| "js_div i (Fin y) = (if 0 \<le> y then i else js_neg i)"
| "js_div _ _ = NaN"

text \<open>\<^verbatim>\<open>a > b\<close> on two Numbers: false as soon as one of them is \<open>NaN\<close>.\<close>

fun num_gt :: "jsnum \<Rightarrow> jsnum \<Rightarrow> bool" where
  "num_gt (Fin x) (Fin y) = (y < x)"
| "num_gt NaN _ = False"
| "num_gt _ NaN = False"
| "num_gt PInf PInf = False"
| "num_gt PInf _ = True"
| "num_gt NInf _ = False"
| "num_gt (Fin _) PInf = False"
| "num_gt (Fin _) NInf = True"

definition isNaN :: "jsnum \<Rightarrow> bool" where
  "isNaN n = (n = NaN)"

subsection \<open>Truthiness and property access\<close>

fun truthy :: "jsval \<Rightarrow> bool" where
  "truthy JUndefined = False"
| "truthy JNull = False"
| "truthy (JBool b) = b"
| "truthy (JNum n) = (n \<noteq> NaN \<and> n \<noteq> Fin 0)"
| "truthy (JStr s) = (s \<noteq> [])"
| "truthy (JArr _) = True"
| "truthy (JObj _) = True"

text \<open>\<^verbatim>\<open>v == null\<close>: the value is \<^verbatim>\<open>null\<close> or \<^verbatim>\<open>undefined\<close>.\<close>

definition nullish :: "jsval \<Rightarrow> bool" where
  "nullish v = (v = JUndefined \<or> v = JNull)"

text \<open>
  \<^verbatim>\<open>v.k\<close> for a value \<open>v\<close> that is not nullish and a key \<open>k\<close> that no prototype
  defines (every key the worker reads is of that kind): an own property of an object,
  \<^verbatim>\<open>undefined\<close> otherwise. Reading a property of a nullish value throws; the callers
  test for that first.
\<close>

fun js_get :: "jsval \<Rightarrow> string \<Rightarrow> jsval" where
  "js_get (JObj ps) k = (case map_of ps k of Some v \<Rightarrow> v | None \<Rightarrow> JUndefined)"
| "js_get _ k = JUndefined"

text \<open>\<^verbatim>\<open>v?.k\<close>\<close>

definition opt_get :: "jsval \<Rightarrow> string \<Rightarrow> jsval" where
  "opt_get v k = (if nullish v then JUndefined else js_get v k)"

text \<open>\<^verbatim>\<open>o.k = v\<close> on a plain object: an existing property keeps its place.\<close>

fun put_prop :: "(string \<times> jsval) list \<Rightarrow> string \<Rightarrow> jsval \<Rightarrow> (string \<times> jsval) list" where
  "put_prop [] k v = [(k, v)]"
| "put_prop ((k', v') # ps) k v = (if k' = k then (k, v) # ps else (k', v') # put_prop ps k v)"

fun js_set :: "jsval \<Rightarrow> string \<Rightarrow> jsval \<Rightarrow> jsval" where
  "js_set (JObj ps) k v = JObj (put_prop ps k v)"
| "js_set o' k v = o'"

subsection \<open>Reading numbers from strings\<close>

definition is_ws :: "char \<Rightarrow> bool" where
  "is_ws c = (c \<in> set [CHR 0x09, CHR 0x0A, CHR 0x0B, CHR 0x0C, CHR 0x0D, CHR 0x20])"

definition is_digit :: "char \<Rightarrow> bool" where
  "is_digit c = (c \<in> set ''0123456789'')"

definition digit_value :: "char \<Rightarrow> nat" where
  "digit_value c = of_char c - 48"

definition digits_value :: "string \<Rightarrow> nat" where
  "digits_value ds = foldl (\<lambda>a c. 10 * a + digit_value c) 0 ds"

definition scale10 :: "nat \<Rightarrow> int \<Rightarrow> real" where
  "scale10 m e = (if 0 \<le> e then of_nat m * 10 ^ nat e else of_nat m / 10 ^ nat (- e))"

text \<open>
  An optional exponent part: \<^verbatim>\<open>e\<close> or \<^verbatim>\<open>E\<close>, an optional sign and at least one
  digit. Without a digit nothing is consumed.
\<close>

definition scan_exponent :: "string \<Rightarrow> int \<times> string" where
  "scan_exponent s =
     (case s of
        [] \<Rightarrow> (0, s)
      | c # t \<Rightarrow>
          if c = CHR ''e'' \<or> c = CHR ''E'' then
            (let (neg, u) =
                   (case t of
                      [] \<Rightarrow> (False, t)
                    | d # u \<Rightarrow> if d = CHR ''-'' then (True, u)
                               else if d = CHR ''+'' then (False, u) else (False, t));
                 es = takeWhile is_digit u
             in if es = [] then (0, s)
                else (if neg then - int (digits_value es) else int (digits_value es),
                      dropWhile is_digit u))
          else (0, s))"

text \<open>
  The longest prefix that is an unsigned decimal literal of the string grammar
  (\<^verbatim>\<open>Infinity\<close>, \<^verbatim>\<open>12\<close>, \<^verbatim>\<open>12.\<close>, \<^verbatim>\<open>12.5\<close>, \<^verbatim>\<open>.5\<close>, each of the last four with an
  optional exponent), with its value and the rest of the string.
\<close>

definition scan_unsigned :: "string \<Rightarrow> (jsnum \<times> string) option" where
  "scan_unsigned s =
     (if take 8 s = ''Infinity'' then Some (PInf, drop 8 s)
      else
        let ds = takeWhile is_digit s;
            r = dropWhile is_digit s;
            (fs, r') =
              (case r of
                 [] \<Rightarrow> ([], r)
               | c # t \<Rightarrow> if c = CHR ''.'' then (takeWhile is_digit t, dropWhile is_digit t)
                          else ([], r))
        in if ds = [] \<and> fs = [] then None
           else
             let (e, rest) = scan_exponent r'
             in Some (Fin (scale10 (digits_value (ds @ fs)) (e - int (length fs))), rest))"

definition scan_decimal :: "string \<Rightarrow> (jsnum \<times> string) option" where
  "scan_decimal s =
     (case s of
        [] \<Rightarrow> None
      | c # t \<Rightarrow>
          if c = CHR ''+'' then scan_unsigned t
          else if c = CHR ''-'' then map_option (\<lambda>(n, r). (js_neg n, r)) (scan_unsigned t)
          else scan_unsigned s)"

text \<open>\<^verbatim>\<open>parseFloat\<close> on a string: skip leading white space, read the longest literal.\<close>

definition parseFloat_str :: "string \<Rightarrow> jsnum" where
  "parseFloat_str s =
     (case scan_decimal (dropWhile is_ws s) of None \<Rightarrow> NaN | Some (n, _) \<Rightarrow> n)"

text \<open>
  Literals with a radix prefix (\<^verbatim>\<open>0x1F\<close>, \<^verbatim>\<open>0o17\<close>, \<^verbatim>\<open>0b101\<close>), which the
  conversion of a whole string to a Number accepts and \<^verbatim>\<open>parseFloat\<close> does not.
\<close>

definition radix_digit :: "char \<Rightarrow> nat option" where
  "radix_digit c =
     (if is_digit c then Some (of_char c - 48)
      else if c \<in> set ''abcdef'' then Some (of_char c - 87)
      else if c \<in> set ''ABCDEF'' then Some (of_char c - 55)
      else None)"

definition radix_value :: "nat \<Rightarrow> string \<Rightarrow> nat option" where
  "radix_value b ds =
     (if ds \<noteq> [] \<and> (\<forall>c\<in>set ds. case radix_digit c of None \<Rightarrow> False | Some d \<Rightarrow> d < b)
      then Some (foldl (\<lambda>a c. b * a + (case radix_digit c of None \<Rightarrow> 0 | Some d \<Rightarrow> d)) 0 ds)
      else None)"

definition scan_radix :: "string \<Rightarrow> nat option" where
  "scan_radix s =
     (case s of
        z # x # ds \<Rightarrow>
          if z \<noteq> CHR ''0'' then None
          else if x = CHR ''x'' \<or> x = CHR ''X'' then radix_value 16 ds
          else if x = CHR ''o'' \<or> x = CHR ''O'' then radix_value 8 ds
          else if x = CHR ''b'' \<or> x = CHR ''B'' then radix_value 2 ds
          else None
      | _ \<Rightarrow> None)"

text \<open>
  The conversion of a whole string to a Number: white space is stripped at both ends,
  the empty string is 0, and the rest must be one literal.
\<close>

definition string_to_number :: "string \<Rightarrow> jsnum" where
  "string_to_number s =
     (let t = rev (dropWhile is_ws (rev (dropWhile is_ws s)))
      in if t = [] then Fin 0
         else case scan_radix t of
                Some n \<Rightarrow> Fin (of_nat n)
              | None \<Rightarrow> (case scan_decimal t of
                           Some (n, []) \<Rightarrow> n
                         | _ \<Rightarrow> NaN))"

subsection \<open>Coercions\<close>

text \<open>
  Converting an object to a primitive calls its \<^verbatim>\<open>toString\<close>. Data that came out of
  \<^verbatim>\<open>JSON.parse\<close> inherits the built-in one, unless an own property named
  \<^verbatim>\<open>toString\<close> shadows it with something that is not a function; then the conversion
  throws a TypeError. An array is converted by joining the strings of its elements, so it
  throws when one of them does.
\<close>

fun unprintable :: "jsval \<Rightarrow> bool" where
  "unprintable (JObj ps) = (''toString'' \<in> set (map fst ps))"
| "unprintable (JArr xs) = (\<exists>x\<in>set xs. unprintable x)"
| "unprintable _ = False"

definition not_primitive :: js_error where
  "not_primitive = JsError ''TypeError'' ''Cannot convert object to primitive value''"

text \<open>
  \<^verbatim>\<open>parseFloat(v)\<close> is \<^verbatim>\<open>parseFloat\<close> of the string of \<open>v\<close>. The string of a Number
  reads back as that Number; those of \<^verbatim>\<open>true\<close>, \<^verbatim>\<open>null\<close>, \<^verbatim>\<open>undefined\<close> and of a
  plain object (\<^verbatim>\<open>[object Object]\<close>) start with no literal. The string of an array is the
  strings of its elements separated by commas, with the empty string for a nullish
  element; a comma ends every literal, so only the first element counts.
\<close>

fun parseFloat_val :: "jsval \<Rightarrow> jsnum" where
  "parseFloat_val (JStr s) = parseFloat_str s"
| "parseFloat_val (JNum n) = n"
| "parseFloat_val (JArr []) = NaN"
| "parseFloat_val (JArr (x # xs)) = (if nullish x then NaN else parseFloat_val x)"
| "parseFloat_val _ = NaN"

definition js_parseFloat :: "jsval \<Rightarrow> js_error + jsnum" where
  "js_parseFloat v = (if unprintable v then Inl not_primitive else Inr (parseFloat_val v))"

text \<open>
  The conversion of a value to a Number, for values that can be converted to a primitive.
  An array of one element converts as the string of that element does; a longer one has a
  comma in its string, which is no Number.
\<close>

fun to_number :: "jsval \<Rightarrow> jsnum" where
  "to_number JUndefined = NaN"
| "to_number JNull = Fin 0"
| "to_number (JBool b) = Fin (if b then 1 else 0)"
| "to_number (JNum n) = n"
| "to_number (JStr s) = string_to_number s"
| "to_number (JObj ps) = NaN"
| "to_number (JArr []) = Fin 0"
| "to_number (JArr [JUndefined]) = Fin 0"
| "to_number (JArr [JNull]) = Fin 0"
| "to_number (JArr [JBool b]) = NaN"
| "to_number (JArr [JObj ps]) = NaN"
| "to_number (JArr [x]) = to_number x"
| "to_number (JArr (x # y # zs)) = NaN"

text \<open>\<^verbatim>\<open>v > c\<close> for a Number \<open>c\<close>.\<close>

definition js_gt :: "jsval \<Rightarrow> jsnum \<Rightarrow> js_error + bool" where
  "js_gt v c = (if unprintable v then Inl not_primitive else Inr (num_gt (to_number v) c))"

section \<open>Unit conversion and the value parser\<close>

text \<open>\<^verbatim>\<open>const fToC = (f) => (f - 32) * 5 / 9;\<close>\<close>

definition fToC :: "jsnum \<Rightarrow> jsnum" where
  "fToC f = js_div (js_mul (js_sub f (Fin 32)) (Fin 5)) (Fin 9)"

text \<open>\<^verbatim>\<open>const inHgToHPa = (inHg) => inHg * 33.8639;\<close>\<close>

definition inHgToHPa :: "jsnum \<Rightarrow> jsnum" where
  "inHgToHPa inHg = js_mul inHg (Fin 33.8639)"

text \<open>
  \<^verbatim>\<open>
  function parseEcowittValue(obj) {
    if (obj == null || obj.value == null || obj.value === '') return null;
    const n = parseFloat(obj.value);
    return isNaN(n) ? null : n;
  }
  \<close>
  The result \<open>None\<close> is \<^verbatim>\<open>null\<close>.
\<close>

definition parseEcowittValue :: "jsval \<Rightarrow> js_error + jsnum option" where
  "parseEcowittValue obj =
     (if nullish obj \<or> nullish (js_get obj ''value'') \<or> js_get obj ''value'' = JStr ''''
      then Inr None
      else bind_r (js_parseFloat (js_get obj ''value''))
             (\<lambda>n. Inr (if isNaN n then None else Some n)))"

section \<open>JSON text\<close>

text \<open>
  A text is either no JSON at all, or the JSON text of a value; the latter is represented
  by the value that \<^verbatim>\<open>JSON.parse\<close> reads back from it.
\<close>

datatype js_text = Garbled | JsonText jsval

text \<open>
  What is read back from \<^verbatim>\<open>JSON.stringify(v)\<close>: a Number that is not finite becomes
  \<^verbatim>\<open>null\<close>, an \<^verbatim>\<open>undefined\<close> array element becomes \<^verbatim>\<open>null\<close>, and a property
  whose value is \<^verbatim>\<open>undefined\<close> is left out.
\<close>

fun json_of :: "jsval \<Rightarrow> jsval" where
  "json_of (JNum (Fin x)) = JNum (Fin x)"
| "json_of (JNum _) = JNull"
| "json_of (JArr xs) = JArr (map (\<lambda>x. if x = JUndefined then JNull else json_of x) xs)"
| "json_of (JObj ps) =
     JObj (map (\<lambda>p. (fst p, json_of (snd p))) (filter (\<lambda>p. snd p \<noteq> JUndefined) ps))"
| "json_of v = v"

definition JSON_stringify :: "jsval \<Rightarrow> js_text" where
  "JSON_stringify v = JsonText (json_of v)"

section \<open>The key-value store\<close>

text \<open>
  A namespace holds, for each key, a text and the time to live it was written with, and
  the list of the operations that were called on it, oldest first. Whether a read or a
  write reaches the store is decided outside the worker: \<open>get_fails\<close> and
  \<open>put_fails\<close> say which of the two operations throw.
\<close>

record kv_entry =
  content :: js_text
  expirationTtl :: nat

datatype kv_op = Get string | Put string js_text nat

record kv_namespace =
  entries :: "string \<Rightarrow> kv_entry option"
  get_fails :: bool
  put_fails :: bool
  ops :: "kv_op list"

text \<open>\<^verbatim>\<open>kv.get(key, { type: 'json' })\<close>: \<^verbatim>\<open>null\<close> for a key that is not there.\<close>

definition kv_get :: "kv_namespace \<Rightarrow> string \<Rightarrow> (js_error + jsval) \<times> kv_namespace" where
  "kv_get kv key =
     ((if get_fails kv then Inl (JsError ''Error'' ''KV GET failed'')
       else case entries kv key of
              None \<Rightarrow> Inr JNull
            | Some e \<Rightarrow> (case content e of
                           Garbled \<Rightarrow> Inl (JsError ''SyntaxError'' ''Unexpected token'')
                         | JsonText v \<Rightarrow> Inr v)),
      kv\<lparr>ops := ops kv @ [Get key]\<rparr>)"

text \<open>\<^verbatim>\<open>kv.put(key, text, { expirationTtl: ttl })\<close>\<close>

definition kv_put :: "kv_namespace \<Rightarrow> string \<Rightarrow> js_text \<Rightarrow> nat \<Rightarrow> (js_error + unit) \<times> kv_namespace" where
  "kv_put kv key txt ttl =
     (if put_fails kv
      then (Inl (JsError ''Error'' ''KV PUT failed''), kv\<lparr>ops := ops kv @ [Put key txt ttl]\<rparr>)
      else (Inr (),
            kv\<lparr>entries := (entries kv)(key \<mapsto> \<lparr>content = txt, expirationTtl = ttl\<rparr>),
               ops := ops kv @ [Put key txt ttl]\<rparr>))"

section \<open>The trend history\<close>

definition KV_HISTORY_KEY :: string where
  "KV_HISTORY_KEY = ''trend_history''"

definition MAX_HISTORY_HOURS :: int where
  "MAX_HISTORY_HOURS = 48"

text \<open>\<^verbatim>\<open>{ pressure: [], temperature: [] }\<close>\<close>

definition empty_history :: jsval where
  "empty_history = JObj [(''pressure'', JArr []), (''temperature'', JArr [])]"

text \<open>\<^verbatim>\<open>{ time: now, value: v }\<close>\<close>

definition sample :: "int \<Rightarrow> jsnum \<Rightarrow> jsval" where
  "sample now v = JObj [(''time'', JNum (Fin (of_int now))), (''value'', JNum v)]"

text \<open>
  \<^verbatim>\<open>history.k.push(s)\<close>: only an array has a \<^verbatim>\<open>push\<close> that can be called.
\<close>

definition push :: "jsval \<Rightarrow> string \<Rightarrow> jsval \<Rightarrow> js_error + jsval" where
  "push history k s =
     (case js_get history k of
        JArr xs \<Rightarrow> Inr (js_set history k (JArr (xs @ [s])))
      | _ \<Rightarrow> Inl (JsError ''TypeError'' (''history.'' @ k @ ''.push is not a function'')))"

text \<open>The callback \<^verbatim>\<open>p => p.time > cutoff\<close>; reading \<^verbatim>\<open>time\<close> of a nullish \<open>p\<close> throws.\<close>

definition newer :: "int \<Rightarrow> jsval \<Rightarrow> js_error + bool" where
  "newer cutoff p =
     (if nullish p then Inl (JsError ''TypeError'' ''Cannot read properties of null'')
      else js_gt (js_get p ''time'') (Fin (of_int cutoff)))"

text \<open>\<^verbatim>\<open>xs.filter(f)\<close> for a callback that may throw.\<close>

fun filter_js :: "(jsval \<Rightarrow> js_error + bool) \<Rightarrow> jsval list \<Rightarrow> js_error + jsval list" where
  "filter_js f [] = Inr []"
| "filter_js f (x # xs) =
     bind_r (f x) (\<lambda>keep. bind_r (filter_js f xs) (\<lambda>ys. Inr (if keep then x # ys else ys)))"

text \<open>\<^verbatim>\<open>history.k = history.k.filter(p => p.time > cutoff)\<close>\<close>

definition trim :: "jsval \<Rightarrow> string \<Rightarrow> int \<Rightarrow> js_error + jsval" where
  "trim history k cutoff =
     (case js_get history k of
        JArr xs \<Rightarrow> bind_r (filter_js (newer cutoff) xs) (\<lambda>ys. Inr (js_set history k (JArr ys)))
      | _ \<Rightarrow> Inl (JsError ''TypeError'' (''history.'' @ k @ ''.filter is not a function'')))"

text \<open>
  The first step of \<^verbatim>\<open>updateTrendHistory\<close>, with the namespace afterwards:
  \<^verbatim>\<open>
  let history = { pressure: [], temperature: [] };
  try {
    const stored = await kv.get(KV_HISTORY_KEY, { type: 'json' });
    if (stored && stored.pressure && stored.temperature) {
      history = stored;
    }
  } catch (_) {
    // KV read failed - start fresh, don't crash
  }
  \<close>
\<close>

definition stored_history :: "kv_namespace \<Rightarrow> jsval \<times> kv_namespace" where
  "stored_history kv =
     (let (got, kv1) = kv_get kv KV_HISTORY_KEY
      in (case got of
            Inl _ \<Rightarrow> empty_history
          | Inr stored \<Rightarrow>
              if truthy stored \<and> truthy (js_get stored ''pressure'')
                   \<and> truthy (js_get stored ''temperature'')
              then stored else empty_history,
          kv1))"

text \<open>
  The steps in the middle, which no \<^verbatim>\<open>try\<close> guards, with the reading of
  \<^verbatim>\<open>Date.now()\<close> as the argument \<open>now\<close>:
  \<^verbatim>\<open>
  const cutoff = now - MAX_HISTORY_HOURS * 3600 * 1000;
  const rawPressure = parseEcowittValue(realtimeData?.pressure?.relative);
  const rawTemp = parseEcowittValue(realtimeData?.outdoor?.temperature);
  if (rawPressure !== null) {
    history.pressure.push({ time: now, value: inHgToHPa(rawPressure) });
  }
  if (rawTemp !== null) {
    history.temperature.push({ time: now, value: fToC(rawTemp) });
  }
  history.pressure = history.pressure.filter(p => p.time > cutoff);
  history.temperature = history.temperature.filter(t => t.time > cutoff);
  \<close>
\<close>

definition append_and_trim :: "jsval \<Rightarrow> int \<Rightarrow> jsval \<Rightarrow> js_error + jsval" where
  "append_and_trim history now realtimeData =
     (let cutoff = now - MAX_HISTORY_HOURS * 3600 * 1000
      in bind_r (parseEcowittValue (opt_get (opt_get realtimeData ''pressure'') ''relative''))
           (\<lambda>rawPressure.
         bind_r (parseEcowittValue (opt_get (opt_get realtimeData ''outdoor'') ''temperature''))
           (\<lambda>rawTemp.
         bind_r (case rawPressure of
                   None \<Rightarrow> Inr history
                 | Some p \<Rightarrow> push history ''pressure'' (sample now (inHgToHPa p)))
           (\<lambda>h1.
         bind_r (case rawTemp of
                   None \<Rightarrow> Inr h1
                 | Some t \<Rightarrow> push h1 ''temperature'' (sample now (fToC t)))
           (\<lambda>h2.
         bind_r (trim h2 ''pressure'' cutoff)
           (\<lambda>h3. trim h3 ''temperature'' cutoff))))))"

text \<open>
  \<^verbatim>\<open>async function updateTrendHistory(kv, realtimeData)\<close>: the two parts above, then
  \<^verbatim>\<open>
  try {
    await kv.put(KV_HISTORY_KEY, JSON.stringify(history), { expirationTtl: 49 * 3600 });
  } catch (_) {
    // KV write failed - return what we have, don't crash
  }
  return history;
  \<close>
  The result is the returned history, or the error the call rejects with, and the
  namespace afterwards.
\<close>

definition updateTrendHistory ::
  "kv_namespace \<Rightarrow> int \<Rightarrow> jsval \<Rightarrow> (js_error + jsval) \<times> kv_namespace" where
  "updateTrendHistory kv now realtimeData =
     (let (history, kv1) = stored_history kv
      in case append_and_trim history now realtimeData of
           Inl e \<Rightarrow> (Inl e, kv1)
         | Inr h \<Rightarrow> (Inr h, snd (kv_put kv1 KV_HISTORY_KEY (JSON_stringify h) (49 * 3600))))"

section \<open>The upstream client\<close>

definition ECOWITT_BASE :: string where
  "ECOWITT_BASE = ''https://api.ecowitt.net/api/v3/device''"

text \<open>
  What \<^verbatim>\<open>fetch(url)\<close> settles to: a rejection (the network failed), or a response
  with its status and its body.
\<close>

datatype fetch_outcome = NetworkError js_error | HttpResponse nat js_text

text \<open>\<^verbatim>\<open>response.ok\<close>\<close>

definition response_ok :: "nat \<Rightarrow> bool" where
  "response_ok st = (200 \<le> st \<and> st \<le> 299)"

text \<open>The decimal digits of a number, as a template literal prints it.\<close>

definition digit_char :: "nat \<Rightarrow> char" where
  "digit_char n = ''0123456789'' ! (n mod 10)"

fun show_nat :: "nat \<Rightarrow> string" where
  "show_nat n =
     (if n < 10 then [digit_char n] else show_nat (n div 10) @ [digit_char (n mod 10)])"

declare show_nat.simps [simp del]

text \<open>
  \<^verbatim>\<open>
  async function fetchEcowitt(url) {
    const response = await fetch(url);
    if (!response.ok) {
      throw new Error(`HTTP ${response.status}`);
    }
    return response.json();
  }
  \<close>
  \<open>Inl\<close> is the reason the promise rejects with, \<open>Inr\<close> the value it fulfils with.
\<close>

definition fetchEcowitt :: "(string \<Rightarrow> fetch_outcome) \<Rightarrow> string \<Rightarrow> js_error + jsval" where
  "fetchEcowitt fetch url =
     (case fetch url of
        NetworkError e \<Rightarrow> Inl e
      | HttpResponse st body \<Rightarrow>
          if \<not> response_ok st then Inl (JsError ''Error'' (''HTTP '' @ show_nat st))
          else (case body of
                  Garbled \<Rightarrow> Inl (JsError ''SyntaxError'' ''Unexpected token'')
                | JsonText v \<Rightarrow> Inr v))"

text \<open>\<^verbatim>\<open>encodeURIComponent\<close>, byte by byte.\<close>

definition hex_digit :: "nat \<Rightarrow> char" where
  "hex_digit n = ''0123456789ABCDEF'' ! (n mod 16)"

definition uri_unreserved :: "char \<Rightarrow> bool" where
  "uri_unreserved c =
     (c \<in> set ''ABCDEFGHIJKLMNOPQRSTUVWXYZabcdefghijklmnopqrstuvwxyz0123456789-_.!~*()''
      \<or> c = CHR 0x27)"

definition encodeURIComponent :: "string \<Rightarrow> string" where
  "encodeURIComponent s =
     concat (map (\<lambda>c. if uri_unreserved c then [c]
                      else [CHR ''%'', hex_digit (of_char c div 16), hex_digit (of_char c)]) s)"

text \<open>\<^verbatim>\<open>s.replace('T', ' ')\<close>: the first occurrence only.\<close>

fun replace_T :: "string \<Rightarrow> string" where
  "replace_T [] = []"
| "replace_T (c # s) = (if c = CHR ''T'' then CHR '' '' # s else c # replace_T s)"

text \<open>
  What the worker is given from outside: how \<^verbatim>\<open>fetch\<close> answers each URL, how the
  runtime prints a time (epoch milliseconds) with
  \<^verbatim>\<open>toLocaleString('sv-SE', { timeZone: 'Africa/Johannesburg' })\<close>, and the two readings
  of the clock, the one in \<^verbatim>\<open>buildHistoryUrl\<close> and the one in
  \<^verbatim>\<open>updateTrendHistory\<close>.
\<close>

record platform =
  fetch :: "string \<Rightarrow> fetch_outcome"
  toLocaleString :: "int \<Rightarrow> string"
  url_clock :: int
  update_clock :: int

definition real_time_url :: "string \<Rightarrow> string \<Rightarrow> string \<Rightarrow> string" where
  "real_time_url appKey apiKey mac =
     ECOWITT_BASE @ ''/real_time?application_key='' @ appKey @ ''&api_key='' @ apiKey
       @ ''&mac='' @ mac @ ''&call_back=all''"

definition buildHistoryUrl :: "platform \<Rightarrow> string \<Rightarrow> string \<Rightarrow> string \<Rightarrow> string" where
  "buildHistoryUrl pf appKey apiKey mac =
     (let toEcowittDate = (\<lambda>date. replace_T (toLocaleString pf date));
          now = url_clock pf;
          start = now - 24 * 3600 * 1000;
          endDate = toEcowittDate now;
          startDate = toEcowittDate start
      in ECOWITT_BASE @ ''/history?application_key='' @ appKey @ ''&api_key='' @ apiKey
           @ ''&mac='' @ mac @ ''&start_date='' @ encodeURIComponent startDate
           @ ''&end_date='' @ encodeURIComponent endDate
           @ ''&cycle_type=30min&call_back=outdoor,pressure'')"

section \<open>The request handler\<close>

record response =
  status :: nat
  headers :: "(string \<times> string) list"
  body :: js_text

definition CORS_HEADERS :: "(string \<times> string) list" where
  "CORS_HEADERS =
     [(''Access-Control-Allow-Origin'', ''*''),
      (''Access-Control-Allow-Methods'', ''GET, OPTIONS''),
      (''Content-Type'', ''application/json'')]"

text \<open>\<^verbatim>\<open>function jsonResponse(data, status = 200)\<close>\<close>

definition jsonResponse :: "jsval \<Rightarrow> nat \<Rightarrow> response" where
  "jsonResponse data st = \<lparr>status = st, headers = CORS_HEADERS, body = JSON_stringify data\<rparr>"

text \<open>
  The environment of the worker: three variables, each a string or not set, and the
  binding of the key-value namespace, if there is one.
\<close>

record env =
  ECOWITT_API_KEY :: "string option"
  ECOWITT_APPLICATION_KEY :: "string option"
  ECOWITT_DEVICE_MAC :: "string option"
  WEATHER_KV :: "kv_namespace option"

text \<open>\<^verbatim>\<open>!env.X\<close>: the variable is not set, or is the empty string.\<close>

definition unset :: "string option \<Rightarrow> bool" where
  "unset x = (x = None \<or> x = Some [])"

definition var :: "string option \<Rightarrow> string" where
  "var x = (case x of None \<Rightarrow> [] | Some s \<Rightarrow> s)"

text \<open>The string of an Error object in a template literal.\<close>

definition error_string :: "js_error \<Rightarrow> string" where
  "error_string e =
     (if err_message e = [] then err_name e
      else if err_name e = [] then err_message e
      else err_name e @ '': '' @ err_message e)"

text \<open>
  What a request comes to: the response, or the error the handler rejects with; the
  URLs fetched, in order; and the namespace afterwards.
\<close>

datatype outcome = Responded response | Uncaught js_error

record run =
  outcome :: outcome
  fetched :: "string list"
  kv_after :: "kv_namespace option"

text \<open>\<^verbatim>\<open>export async function onRequestGet({ env })\<close>\<close>

definition onRequestGet :: "env \<Rightarrow> platform \<Rightarrow> run" where
  "onRequestGet env pf =
     (if unset (ECOWITT_API_KEY env) \<or> unset (ECOWITT_APPLICATION_KEY env)
           \<or> unset (ECOWITT_DEVICE_MAC env)
      then \<lparr>outcome = Responded (jsonResponse
               (JObj [(''error'', JStr ''Server misconfiguration: missing environment variables.'')])
               500),
            fetched = [], kv_after = WEATHER_KV env\<rparr>
      else
        let apiKey = var (ECOWITT_API_KEY env);
            appKey = var (ECOWITT_APPLICATION_KEY env);
            mac = var (ECOWITT_DEVICE_MAC env);
            url1 = real_time_url appKey apiKey mac;
            url2 = buildHistoryUrl pf appKey apiKey mac;
            realtimeResult = fetchEcowitt (fetch pf) url1;
            historyResult = fetchEcowitt (fetch pf) url2
        in case realtimeResult of
             Inl reason \<Rightarrow>
               \<lparr>outcome = Responded (jsonResponse
                  (JObj [(''error'', JStr (''Failed to reach Ecowitt API: '' @ error_string reason))])
                  502),
                fetched = [url1, url2], kv_after = WEATHER_KV env\<rparr>
           | Inr realtimeData \<Rightarrow>
               if nullish realtimeData
               then \<lparr>outcome = Uncaught (JsError ''TypeError'' ''Cannot read properties of null''),
                     fetched = [url1, url2], kv_after = WEATHER_KV env\<rparr>
               else if js_get realtimeData ''code'' \<noteq> JNum (Fin 0)
               then \<lparr>outcome = Responded (jsonResponse
                        (JObj [(''error'',
                                if truthy (js_get realtimeData ''msg'')
                                then js_get realtimeData ''msg''
                                else JStr ''Ecowitt API returned an error.'')])
                        502),
                     fetched = [url1, url2], kv_after = WEATHER_KV env\<rparr>
               else
                 let (historyData, historyError) =
                       (case historyResult of
                          Inr v \<Rightarrow>
                            if opt_get v ''code'' = JNum (Fin 0) then (js_get v ''data'', JNull)
                            else (JNull, JObj [(''code'', opt_get v ''code''),
                                               (''msg'', opt_get v ''msg'')])
                        | Inl reason \<Rightarrow>
                            (JNull, JObj [(''msg'',
                               JStr (if err_message reason \<noteq> [] then err_message reason
                                     else ''fetch failed''))]));
                     payload = (\<lambda>trendHistory.
                       JObj [(''realtime'', js_get realtimeData ''data''),
                             (''history'', historyData),
                             (''history_error'', historyError),
                             (''trends'', trendHistory)])
                 in case WEATHER_KV env of
                      None \<Rightarrow>
                        \<lparr>outcome = Responded (jsonResponse (payload empty_history) 200),
                         fetched = [url1, url2], kv_after = None\<rparr>
                    | Some kv \<Rightarrow>
                        (case updateTrendHistory kv (update_clock pf) (js_get realtimeData ''data'') of
                           (Inl e, kv') \<Rightarrow>
                             \<lparr>outcome = Uncaught e, fetched = [url1, url2], kv_after = Some kv'\<rparr>
                         | (Inr trendHistory, kv') \<Rightarrow>
                             \<lparr>outcome = Responded (jsonResponse (payload trendHistory) 200),
                              fetched = [url1, url2], kv_after = Some kv'\<rparr>))"

section \<open>The other copy of the handler\<close>

text \<open>
  The repository holds a second copy of the worker. Its \<^verbatim>\<open>updateTrendHistory\<close>,
  \<^verbatim>\<open>parseEcowittValue\<close>, \<^verbatim>\<open>fToC\<close>, \<^verbatim>\<open>inHgToHPa\<close>, \<^verbatim>\<open>fetchEcowitt\<close> and
  \<^verbatim>\<open>jsonResponse\<close> are the same; it differs in the dates of the history URL, which are
  epoch seconds, and in the response, which has no \<^verbatim>\<open>history_error\<close>:
  \<^verbatim>\<open>
  function buildHistoryUrl(appKey, apiKey, mac) {
    const endTime = Math.floor(Date.now() / 1000);
    const startTime = endTime - 24 * 3600;
    return `${ECOWITT_BASE}/history?application_key=${appKey}&api_key=${apiKey}&mac=${mac}&start_date=${startTime}&end_date=${endTime}&cycle_type=30min&call_back=outdoor,pressure`;
  }
  \<close>
\<close>

definition show_int :: "int \<Rightarrow> string" where
  "show_int i = (if i < 0 then CHR ''-'' # show_nat (nat (- i)) else show_nat (nat i))"

definition buildHistoryUrl_seconds :: "platform \<Rightarrow> string \<Rightarrow> string \<Rightarrow> string \<Rightarrow> string" where
  "buildHistoryUrl_seconds pf appKey apiKey mac =
     (let endTime = url_clock pf div 1000;
          startTime = endTime - 24 * 3600
      in ECOWITT_BASE @ ''/history?application_key='' @ appKey @ ''&api_key='' @ apiKey
           @ ''&mac='' @ mac @ ''&start_date='' @ show_int startTime
           @ ''&end_date='' @ show_int endTime
           @ ''&cycle_type=30min&call_back=outdoor,pressure'')"

text \<open>
  \<^verbatim>\<open>
  const historyData = historyResult.status === 'fulfilled' && historyResult.value?.code === 0
    ? historyResult.value.data
    : null;
  \<close>
  The rest of the handler is that of \<open>onRequestGet\<close>.
\<close>

definition onRequestGet_seconds :: "env \<Rightarrow> platform \<Rightarrow> run" where
  "onRequestGet_seconds env pf =
     (if unset (ECOWITT_API_KEY env) \<or> unset (ECOWITT_APPLICATION_KEY env)
           \<or> unset (ECOWITT_DEVICE_MAC env)
      then \<lparr>outcome = Responded (jsonResponse
               (JObj [(''error'', JStr ''Server misconfiguration: missing environment variables.'')])
               500),
            fetched = [], kv_after = WEATHER_KV env\<rparr>
      else
        let apiKey = var (ECOWITT_API_KEY env);
            appKey = var (ECOWITT_APPLICATION_KEY env);
            mac = var (ECOWITT_DEVICE_MAC env);
            url1 = real_time_url appKey apiKey mac;
            url2 = buildHistoryUrl_seconds pf appKey apiKey mac;
            realtimeResult = fetchEcowitt (fetch pf) url1;
            historyResult = fetchEcowitt (fetch pf) url2
        in case realtimeResult of
             Inl reason \<Rightarrow>
               \<lparr>outcome = Responded (jsonResponse
                  (JObj [(''error'', JStr (''Failed to reach Ecowitt API: '' @ error_string reason))])
                  502),
                fetched = [url1, url2], kv_after = WEATHER_KV env\<rparr>
           | Inr realtimeData \<Rightarrow>
               if nullish realtimeData
               then \<lparr>outcome = Uncaught (JsError ''TypeError'' ''Cannot read properties of null''),
                     fetched = [url1, url2], kv_after = WEATHER_KV env\<rparr>
               else if js_get realtimeData ''code'' \<noteq> JNum (Fin 0)
               then \<lparr>outcome = Responded (jsonResponse
                        (JObj [(''error'',
                                if truthy (js_get realtimeData ''msg'')
                                then js_get realtimeData ''msg''
                                else JStr ''Ecowitt API returned an error.'')])
                        502),
                     fetched = [url1, url2], kv_after = WEATHER_KV env\<rparr>
               else
                 let historyData =
                       (case historyResult of
                          Inr v \<Rightarrow> if opt_get v ''code'' = JNum (Fin 0) then js_get v ''data''
                                   else JNull
                        | Inl reason \<Rightarrow> JNull);
                     payload = (\<lambda>trendHistory.
                       JObj [(''realtime'', js_get realtimeData ''data''),
                             (''history'', historyData),
                             (''trends'', trendHistory)])
                 in case WEATHER_KV env of
                      None \<Rightarrow>
                        \<lparr>outcome = Responded (jsonResponse (payload empty_history) 200),
                         fetched = [url1, url2], kv_after = None\<rparr>
                    | Some kv \<Rightarrow>
                        (case updateTrendHistory kv (update_clock pf) (js_get realtimeData ''data'') of
                           (Inl e, kv') \<Rightarrow>
                             \<lparr>outcome = Uncaught e, fetched = [url1, url2], kv_after = Some kv'\<rparr>
                         | (Inr trendHistory, kv') \<Rightarrow>
                             \<lparr>outcome = Responded (jsonResponse (payload trendHistory) 200),
                              fetched = [url1, url2], kv_after = Some kv'\<rparr>))"

section \<open>Scenarios\<close>

text \<open>Concrete stores, payloads and platforms, on which the theorems below are run.\<close>

definition kv_empty :: kv_namespace where
  "kv_empty = \<lparr>entries = (\<lambda>k. None), get_fails = False, put_fails = False, ops = []\<rparr>"

definition kv_holding :: "js_text \<Rightarrow> kv_namespace" where
  "kv_holding txt =
     kv_empty\<lparr>entries := (\<lambda>k. if k = ''trend_history''
                                then Some \<lparr>content = txt, expirationTtl = 176400\<rparr> else None)\<rparr>"

definition now0 :: int where
  "now0 = 1700000000000"

text \<open>
  A stored history with a pressure sample exactly 48 hours old and one a millisecond
  younger.
\<close>

definition history_at_boundary :: jsval where
  "history_at_boundary =
     JObj [(''pressure'', JArr [sample 1699827200000 (Fin 1009), sample 1699827200001 (Fin 1010)]),
           (''temperature'', JArr [])]"

text \<open>A stored value whose two fields are there, but are no arrays.\<close>

definition history_no_arrays :: jsval where
  "history_no_arrays = JObj [(''pressure'', JNum (Fin 1)), (''temperature'', JNum (Fin 1))]"

text \<open>The \<^verbatim>\<open>data\<close> of a current reading: 32 degrees Fahrenheit, 29.8 inches of mercury.\<close>

definition reading0 :: jsval where
  "reading0 =
     JObj [(''outdoor'', JObj [(''temperature'', JObj [(''unit'', JStr ''F''), (''value'', JStr ''32'')])]),
           (''pressure'', JObj [(''relative'', JObj [(''unit'', JStr ''inHg''), (''value'', JStr ''29.8'')])])]"

definition realtime_body :: jsval where
  "realtime_body = JObj [(''code'', JNum (Fin 0)), (''msg'', JStr ''success''), (''data'', reading0)]"

definition env0 :: env where
  "env0 = \<lparr>ECOWITT_API_KEY = Some ''k'', ECOWITT_APPLICATION_KEY = Some ''a'',
           ECOWITT_DEVICE_MAC = Some ''m'', WEATHER_KV = Some kv_empty\<rparr>"

text \<open>Upstream answers every request with status 503.\<close>

definition pf_down :: platform where
  "pf_down = \<lparr>fetch = (\<lambda>url. HttpResponse 503 Garbled),
              toLocaleString = (\<lambda>t. ''2023-11-15 00:13:20''),
              url_clock = now0, update_clock = now0\<rparr>"

text \<open>Upstream answers the current reading and fails on the history.\<close>

definition pf_history_down :: platform where
  "pf_history_down =
     pf_down\<lparr>fetch := (\<lambda>url. if url = real_time_url ''a'' ''k'' ''m''
                               then HttpResponse 200 (JsonText realtime_body)
                               else HttpResponse 503 Garbled)\<rparr>"

text \<open>What the update returns on \<open>history_at_boundary\<close> and \<open>reading0\<close> at \<open>now0\<close>.\<close>

definition history_after_boundary :: jsval where
  "history_after_boundary =
     JObj [(''pressure'', JArr [sample 1699827200001 (Fin 1010), sample 1700000000000 (Fin 1009.14422)]),
           (''temperature'', JArr [sample 1700000000000 (Fin 0)])]"

text \<open>The three credentials present but empty.\<close>

definition env_blank :: env where
  "env_blank = \<lparr>ECOWITT_API_KEY = Some [], ECOWITT_APPLICATION_KEY = Some [],
                ECOWITT_DEVICE_MAC = Some [], WEATHER_KV = Some kv_empty\<rparr>"

text \<open>The credentials are set and there is no binding of a namespace.\<close>

definition env_no_kv :: env where
  "env_no_kv = env0\<lparr>WEATHER_KV := None\<rparr>"

text \<open>A namespace that holds \<open>history_at_boundary\<close> and refuses writes.\<close>

definition kv_read_only :: kv_namespace where
  "kv_read_only = (kv_holding (JsonText history_at_boundary))\<lparr>put_fails := True\<rparr>"

text \<open>What the update returns on an empty store and \<open>reading0\<close> at \<open>now0\<close>.\<close>

definition history_fresh :: jsval where
  "history_fresh =
     JObj [(''pressure'', JArr [sample 1700000000000 (Fin 1009.14422)]),
           (''temperature'', JArr [sample 1700000000000 (Fin 0)])]"

text \<open>Upstream answers both requests.\<close>

definition history_body :: jsval where
  "history_body = JObj [(''code'', JNum (Fin 0)), (''msg'', JStr ''success''),
                        (''data'', JObj [(''outdoor'', JObj [])])]"

definition pf_up :: platform where
  "pf_up =
     pf_down\<lparr>fetch := (\<lambda>url. if url = real_time_url ''a'' ''k'' ''m''
                               then HttpResponse 200 (JsonText realtime_body)
                               else HttpResponse 200 (JsonText history_body))\<rparr>"

text \<open>Upstream answers every request with status 200 and an error of its own.\<close>

definition api_error_body :: jsval where
  "api_error_body = JObj [(''code'', JNum (Fin 40010)), (''msg'', JStr ''Illegal parameter'')]"

definition pf_api_error :: platform where
  "pf_api_error = pf_down\<lparr>fetch := (\<lambda>url. HttpResponse 200 (JsonText api_error_body))\<rparr>"

section \<open>The unit converter as the specification words it\<close>



section \<open>Literals and what may follow them\<close>



section \<open>Evaluation and basic facts\<close>

lemmas parser_defs =
  parseFloat_str_def scan_decimal_def scan_unsigned_def scan_exponent_def is_ws_def
  is_digit_def digits_value_def digit_value_def scale10_def

lemmas value_defs =
  opt_get_def nullish_def parseEcowittValue_def js_parseFloat_def bind_r_def isNaN_def
  inHgToHPa_def fToC_def sample_def

lemmas history_defs =
  updateTrendHistory_def stored_history_def append_and_trim_def kv_get_def kv_put_def
  KV_HISTORY_KEY_def MAX_HISTORY_HOURS_def push_def trim_def newer_def js_gt_def
  JSON_stringify_def empty_history_def Let_def

lemmas scenario_defs =
  kv_holding_def kv_empty_def now0_def history_at_boundary_def history_no_arrays_def
  reading0_def realtime_body_def history_after_boundary_def kv_read_only_def
  history_fresh_def history_body_def

lemma map_of_put_prop: "map_of (put_prop ps k v) = (map_of ps)(k \<mapsto> v)"
  by (induction ps) auto

lemma js_get_JArr_obj: "js_get h k = JArr xs \<Longrightarrow> \<exists>ps. h = JObj ps"
  by (cases h) auto

lemma js_get_JNum_not_nullish: "js_get v k = JNum n \<Longrightarrow> \<not> nullish v"
  by (cases v) (auto simp: nullish_def)

lemma filter_js_mem:
  "filter_js f xs = Inr ys \<Longrightarrow> x \<in> set ys \<longleftrightarrow> x \<in> set xs \<and> f x = Inr True"
proof (induction xs arbitrary: ys)
  case Nil
  then show ?case by simp
next
  case (Cons a xs)
  then show ?case
    by (auto simp: bind_r_def split: sum.splits if_splits)
qed

lemma trim_Inr:
  assumes "trim h k c = Inr h'"
  obtains ps xs ys where "h = JObj ps" "js_get h k = JArr xs"
    "filter_js (newer c) xs = Inr ys" "h' = JObj (put_prop ps k (JArr ys))"
proof -
  from assms obtain xs where xs: "js_get h k = JArr xs"
    by (auto simp: trim_def split: jsval.splits)
  then obtain ps where ps: "h = JObj ps" using js_get_JArr_obj by blast
  from assms xs obtain ys where "filter_js (newer c) xs = Inr ys" "h' = js_set h k (JArr ys)"
    by (auto simp: trim_def bind_r_def split: sum.splits)
  with xs ps that show thesis by simp
qed

lemma push_Inr:
  assumes "push h k s = Inr h'"
  obtains ps xs where "h = JObj ps" "js_get h k = JArr xs"
    "h' = JObj (put_prop ps k (JArr (xs @ [s])))"
proof -
  from assms obtain xs where xs: "js_get h k = JArr xs" and h': "h' = js_set h k (JArr (xs @ [s]))"
    by (auto simp: push_def split: jsval.splits)
  then obtain ps where ps: "h = JObj ps" using js_get_JArr_obj by blast
  with xs h' that show thesis by simp
qed

lemma append_and_trim_Inr:
  assumes "append_and_trim H now rt = Inr h"
  obtains h2 h3 where "trim h2 ''pressure'' (now - 172800000) = Inr h3"
    "trim h3 ''temperature'' (now - 172800000) = Inr h"
  using assms
  by (auto simp: append_and_trim_def bind_r_def MAX_HISTORY_HOURS_def Let_def split: sum.splits)

lemma updateTrendHistory_Inr:
  "fst (updateTrendHistory kv now rt) = Inr h
     \<longleftrightarrow> append_and_trim (fst (stored_history kv)) now rt = Inr h"
  by (auto simp: updateTrendHistory_def Let_def split: prod.splits sum.splits)

lemma newer_numeric:
  "newer c p = Inr True \<Longrightarrow> js_get p ''time'' = JNum (Fin t) \<Longrightarrow> of_int c < t"
  by (auto simp: newer_def js_gt_def split: if_splits)

lemma update_at_boundary:
  "fst (updateTrendHistory (kv_holding (JsonText history_at_boundary)) now0 reading0)
     = Inr history_after_boundary"
  by (simp add: history_defs value_defs parser_defs scenario_defs)

section \<open>The rolling window\<close>

text \<open>
  Claim C1. Whenever \<^verbatim>\<open>updateTrendHistory\<close> returns a history, its pressure and
  temperature fields are arrays, and every sample \<open>p\<close> in them passed the test
  \<^verbatim>\<open>p.time > cutoff\<close> with \<open>cutoff = now - 48 * 3600000\<close>. For a sample whose time is
  a finite Number \<open>t\<close> that means \<open>cutoff < t\<close>; so no retained sample has a time equal
  to the cutoff: the inequality is strict.
\<close>

theorem retained_samples_newer_than_cutoff:
  assumes "fst (updateTrendHistory kv now realtimeData) = Inr h"
    and "k = ''pressure'' \<or> k = ''temperature''"
  shows "\<exists>xs. js_get h k = JArr xs \<and>
           (\<forall>p\<in>set xs. newer (now - 48 * 3600000) p = Inr True
              \<and> (\<forall>t. js_get p ''time'' = JNum (Fin t) \<longrightarrow> real_of_int (now - 48 * 3600000) < t)
              \<and> js_get p ''time'' \<noteq> JNum (Fin (real_of_int (now - 48 * 3600000))))"
proof -
  define c where "c = now - 48 * 3600000"
  have c: "now - 172800000 = c" by (simp add: c_def)
  from assms(1) have "append_and_trim (fst (stored_history kv)) now realtimeData = Inr h"
    by (simp add: updateTrendHistory_Inr)
  then obtain h2 h3 where t1: "trim h2 ''pressure'' c = Inr h3"
    and t2: "trim h3 ''temperature'' c = Inr h"
    unfolding c [symmetric] by (rule append_and_trim_Inr)
  from t1 obtain ps xs ys where p: "h3 = JObj (put_prop ps ''pressure'' (JArr ys))"
    "filter_js (newer c) xs = Inr ys"
    by (rule trim_Inr)
  from t2 obtain qs us vs where q: "h3 = JObj qs" "h = JObj (put_prop qs ''temperature'' (JArr vs))"
    "filter_js (newer c) us = Inr vs"
    by (rule trim_Inr)
  have gp: "js_get h ''pressure'' = JArr ys" and gt: "js_get h ''temperature'' = JArr vs"
    using p q by (auto simp: map_of_put_prop)
  have kept: "\<forall>x\<in>set zs. newer c x = Inr True
      \<and> (\<forall>t. js_get x ''time'' = JNum (Fin t) \<longrightarrow> real_of_int c < t)
      \<and> js_get x ''time'' \<noteq> JNum (Fin (real_of_int c))"
    if "filter_js (newer c) ws = Inr zs" for ws zs
    using filter_js_mem [OF that] newer_numeric by blast
  from assms(2) show ?thesis
    unfolding c_def [symmetric]
  proof
    assume "k = ''pressure''"
    with gp kept [OF p(2)] show "\<exists>xs. js_get h k = JArr xs \<and>
           (\<forall>p\<in>set xs. newer c p = Inr True
              \<and> (\<forall>t. js_get p ''time'' = JNum (Fin t) \<longrightarrow> real_of_int c < t)
              \<and> js_get p ''time'' \<noteq> JNum (Fin (real_of_int c)))" by blast
  next
    assume "k = ''temperature''"
    with gt kept [OF q(3)] show "\<exists>xs. js_get h k = JArr xs \<and>
           (\<forall>p\<in>set xs. newer c p = Inr True
              \<and> (\<forall>t. js_get p ''time'' = JNum (Fin t) \<longrightarrow> real_of_int c < t)
              \<and> js_get p ''time'' \<noteq> JNum (Fin (real_of_int c)))" by blast
  qed
qed

text \<open>
  On the stored history \<open>history_at_boundary\<close> the sample that is exactly 48 hours old
  is evicted, and the one a millisecond younger stays.
\<close>

theorem retained_samples_newer_than_cutoff_witness:
  "fst (updateTrendHistory (kv_holding (JsonText history_at_boundary)) now0 reading0)
     = Inr history_after_boundary
   \<and> sample (now0 - 48 * 3600000) (Fin 1009) \<in> set [sample 1699827200000 (Fin 1009), sample 1699827200001 (Fin 1010)]
   \<and> (\<exists>xs. js_get history_after_boundary ''pressure'' = JArr xs
         \<and> sample (now0 - 48 * 3600000) (Fin 1009) \<notin> set xs
         \<and> (\<forall>p\<in>set xs. newer (now0 - 48 * 3600000) p = Inr True
              \<and> (\<forall>t. js_get p ''time'' = JNum (Fin t) \<longrightarrow> real_of_int (now0 - 48 * 3600000) < t)
              \<and> js_get p ''time'' \<noteq> JNum (Fin (real_of_int (now0 - 48 * 3600000)))))"
proof -
  have "\<exists>xs. js_get history_after_boundary ''pressure'' = JArr xs \<and>
           (\<forall>p\<in>set xs. newer (now0 - 48 * 3600000) p = Inr True
              \<and> (\<forall>t. js_get p ''time'' = JNum (Fin t) \<longrightarrow> real_of_int (now0 - 48 * 3600000) < t)
              \<and> js_get p ''time'' \<noteq> JNum (Fin (real_of_int (now0 - 48 * 3600000))))"
    using retained_samples_newer_than_cutoff [OF update_at_boundary, of "''pressure''"] by simp
  then obtain xs where xs: "js_get history_after_boundary ''pressure'' = JArr xs"
    and all: "\<forall>p\<in>set xs. newer (now0 - 48 * 3600000) p = Inr True
              \<and> (\<forall>t. js_get p ''time'' = JNum (Fin t) \<longrightarrow> real_of_int (now0 - 48 * 3600000) < t)
              \<and> js_get p ''time'' \<noteq> JNum (Fin (real_of_int (now0 - 48 * 3600000)))"
    by blast
  have "sample (now0 - 48 * 3600000) (Fin 1009) \<notin> set xs"
    using all by (auto simp: sample_def)
  moreover have "sample (now0 - 48 * 3600000) (Fin 1009)
      \<in> set [sample 1699827200000 (Fin 1009), sample 1699827200001 (Fin 1010)]"
    by (simp add: now0_def)
  ultimately show ?thesis using update_at_boundary xs all by blast
qed

section \<open>The unit converter\<close>


section \<open>The value parser\<close>



section \<open>Missing credentials\<close>

text \<open>
  Claim C7. When one of the three credentials is not set or empty, the handler answers
  with status 500 and an error body, fetches nothing, and leaves the namespace alone.
\<close>

theorem missing_credentials_500:
  assumes "unset (ECOWITT_API_KEY env) \<or> unset (ECOWITT_APPLICATION_KEY env)
             \<or> unset (ECOWITT_DEVICE_MAC env)"
  shows "onRequestGet env pf =
           \<lparr>outcome = Responded
              \<lparr>status = 500, headers = CORS_HEADERS,
               body = JsonText (JObj [(''error'',
                        JStr ''Server misconfiguration: missing environment variables.'')])\<rparr>,
            fetched = [], kv_after = WEATHER_KV env\<rparr>"
  using assms by (simp add: onRequestGet_def jsonResponse_def JSON_stringify_def)

text \<open>With all three credentials empty, although upstream would have answered.\<close>

theorem missing_credentials_500_witness:
  "unset (ECOWITT_API_KEY env_blank)
   \<and> fetched (onRequestGet env_blank pf_history_down) = []
   \<and> outcome (onRequestGet env_blank pf_history_down) =
       Responded \<lparr>status = 500, headers = CORS_HEADERS,
                  body = JsonText (JObj [(''error'',
                           JStr ''Server misconfiguration: missing environment variables.'')])\<rparr>
   \<and> kv_after (onRequestGet env_blank pf_history_down) = Some kv_empty"
proof -
  have u: "unset (ECOWITT_API_KEY env_blank)" by (simp add: env_blank_def unset_def)
  then have "unset (ECOWITT_API_KEY env_blank) \<or> unset (ECOWITT_APPLICATION_KEY env_blank)
             \<or> unset (ECOWITT_DEVICE_MAC env_blank)" by simp
  from missing_credentials_500 [OF this, of pf_history_down] u show ?thesis
    by (simp add: env_blank_def)
qed

section \<open>The write\<close>

lemma stringify_after_boundary:
  "JSON_stringify history_after_boundary = JsonText history_after_boundary"
  by (simp add: JSON_stringify_def history_after_boundary_def sample_def)

lemma snd_stored_history:
  "snd (stored_history kv) = kv\<lparr>ops := ops kv @ [Get KV_HISTORY_KEY]\<rparr>"
  by (simp add: stored_history_def kv_get_def Let_def)

lemma fst_stored_history_put_fails:
  "fst (stored_history (kv\<lparr>put_fails := b\<rparr>)) = fst (stored_history kv)"
  by (simp add: stored_history_def kv_get_def Let_def)

lemma updateTrendHistory_alt:
  "updateTrendHistory kv now rt =
     (case append_and_trim (fst (stored_history kv)) now rt of
        Inl e \<Rightarrow> (Inl e, snd (stored_history kv))
      | Inr h \<Rightarrow> (Inr h, snd (kv_put (snd (stored_history kv)) KV_HISTORY_KEY
                               (JSON_stringify h) (49 * 3600))))"
  by (cases "stored_history kv") (simp add: updateTrendHistory_def split: sum.splits)

text \<open>
  Claim C8. Whether \<^verbatim>\<open>kv.put\<close> throws or not makes no difference to what
  \<^verbatim>\<open>updateTrendHistory\<close> returns. When it returns a history \<open>h\<close>, it has called
  \<^verbatim>\<open>kv.get\<close> and then \<^verbatim>\<open>kv.put\<close> once each, both with the key
  \<^verbatim>\<open>trend_history\<close>, the latter with the text of \<open>h\<close> and a time to live of
  \<open>(48 + 1) * 3600\<close> seconds; a write that succeeds leaves exactly that entry under the
  key, and one that fails leaves the entries as they were.
\<close>

theorem write_failure_swallowed:
  "fst (updateTrendHistory (kv\<lparr>put_fails := True\<rparr>) now rt)
     = fst (updateTrendHistory (kv\<lparr>put_fails := False\<rparr>) now rt)
   \<and> (fst (updateTrendHistory kv now rt) = Inr h \<longrightarrow>
        ops (snd (updateTrendHistory kv now rt))
          = ops kv @ [Get KV_HISTORY_KEY,
                      Put KV_HISTORY_KEY (JSON_stringify h) (nat ((MAX_HISTORY_HOURS + 1) * 3600))]
        \<and> entries (snd (updateTrendHistory kv now rt))
          = (if put_fails kv then entries kv
             else (entries kv)(KV_HISTORY_KEY \<mapsto>
                    \<lparr>content = JSON_stringify h,
                     expirationTtl = nat ((MAX_HISTORY_HOURS + 1) * 3600)\<rparr>)))"
proof -
  have a: "fst (updateTrendHistory (kv\<lparr>put_fails := True\<rparr>) now rt)
     = fst (updateTrendHistory (kv\<lparr>put_fails := False\<rparr>) now rt)"
    by (simp add: updateTrendHistory_alt fst_stored_history_put_fails split: sum.splits)
  have b: "ops (snd (updateTrendHistory kv now rt))
          = ops kv @ [Get KV_HISTORY_KEY,
                      Put KV_HISTORY_KEY (JSON_stringify h) (nat ((MAX_HISTORY_HOURS + 1) * 3600))]
        \<and> entries (snd (updateTrendHistory kv now rt))
          = (if put_fails kv then entries kv
             else (entries kv)(KV_HISTORY_KEY \<mapsto>
                    \<lparr>content = JSON_stringify h,
                     expirationTtl = nat ((MAX_HISTORY_HOURS + 1) * 3600)\<rparr>))"
    if "fst (updateTrendHistory kv now rt) = Inr h"
  proof -
    from that have "append_and_trim (fst (stored_history kv)) now rt = Inr h"
      by (simp add: updateTrendHistory_Inr)
    then show ?thesis
      by (simp add: updateTrendHistory_alt snd_stored_history kv_put_def MAX_HISTORY_HOURS_def)
  qed
  from a b show ?thesis by blast
qed

lemma update_read_only:
  "fst (updateTrendHistory kv_read_only now0 reading0) = Inr history_after_boundary"
  by (simp add: history_defs value_defs parser_defs scenario_defs)

text \<open>
  The same update against a namespace that refuses writes and against one that accepts
  them: the returned history is the same, and only the second one stores it.
\<close>

theorem write_failure_swallowed_witness:
  "fst (updateTrendHistory kv_read_only now0 reading0) = Inr history_after_boundary
   \<and> put_fails kv_read_only
   \<and> entries (snd (updateTrendHistory kv_read_only now0 reading0)) = entries kv_read_only
   \<and> fst (updateTrendHistory (kv_read_only\<lparr>put_fails := False\<rparr>) now0 reading0)
       = Inr history_after_boundary
   \<and> entries (snd (updateTrendHistory (kv_read_only\<lparr>put_fails := False\<rparr>) now0 reading0))
        ''trend_history''
       = Some \<lparr>content = JsonText history_after_boundary, expirationTtl = 176400\<rparr>"
proof -
  have p: "put_fails kv_read_only" by (simp add: kv_read_only_def)
  have same: "(kv_read_only\<lparr>put_fails := True\<rparr>) = kv_read_only" using p by simp
  note w1 = write_failure_swallowed [of kv_read_only now0 reading0 history_after_boundary]
  note w2 = write_failure_swallowed [of "kv_read_only\<lparr>put_fails := False\<rparr>" now0 reading0
      history_after_boundary]
  have ok: "fst (updateTrendHistory (kv_read_only\<lparr>put_fails := False\<rparr>) now0 reading0)
       = Inr history_after_boundary"
    using w1 update_read_only same by simp
  have e1: "entries (snd (updateTrendHistory kv_read_only now0 reading0)) = entries kv_read_only"
    using w1 update_read_only p by simp
  have e2: "entries (snd (updateTrendHistory (kv_read_only\<lparr>put_fails := False\<rparr>) now0 reading0))
        ''trend_history''
       = Some \<lparr>content = JsonText history_after_boundary, expirationTtl = 176400\<rparr>"
    using w2 ok
    by (simp add: KV_HISTORY_KEY_def MAX_HISTORY_HOURS_def stringify_after_boundary)
  from update_read_only p e1 ok e2 show ?thesis by blast
qed

section \<open>A failing current reading\<close>

lemmas handler_defs =
  onRequestGet_def fetchEcowitt_def response_ok_def jsonResponse_def real_time_url_def
  buildHistoryUrl_def ECOWITT_BASE_def unset_def var_def error_string_def
  encodeURIComponent_def uri_unreserved_def hex_digit_def

lemmas handler_scenario_defs =
  env0_def env_no_kv_def env_blank_def pf_down_def pf_history_down_def pf_up_def
  pf_api_error_def api_error_body_def

lemma fetchEcowitt_not_ok:
  "f url = HttpResponse st b \<Longrightarrow> \<not> response_ok st
     \<Longrightarrow> fetchEcowitt f url = Inl (JsError ''Error'' (''HTTP '' @ show_nat st))"
  by (simp add: fetchEcowitt_def)

lemma show_503: "show_nat 503 = ''503''"
  by (simp add: show_nat.simps digit_char_def)

text \<open>
  Claim C4. With the credentials set, let \<open>url\<close> be the URL of the current reading.
  When the response to it is not successful, \<^verbatim>\<open>fetchEcowitt\<close> rejects with the error
  \<^verbatim>\<open>HTTP <status>\<close>; whenever \<^verbatim>\<open>fetchEcowitt\<close> rejects, and whenever it fulfils with
  a body other than \<^verbatim>\<open>null\<close> whose \<^verbatim>\<open>code\<close> is not 0, the handler answers with
  status 502 and an error body that carries the reason (the string of the rejection, or
  the \<^verbatim>\<open>msg\<close> of the body, or a fixed text when the body has none). In each case the
  namespace afterwards is the namespace before, with no operation added:
  \<^verbatim>\<open>updateTrendHistory\<close> was not called.
\<close>

theorem current_reading_failure_502:
  assumes "\<not> unset (ECOWITT_API_KEY env)" "\<not> unset (ECOWITT_APPLICATION_KEY env)"
    "\<not> unset (ECOWITT_DEVICE_MAC env)"
    and "url = real_time_url (var (ECOWITT_APPLICATION_KEY env)) (var (ECOWITT_API_KEY env))
                 (var (ECOWITT_DEVICE_MAC env))"
  shows "(fetch pf url = HttpResponse st b \<and> \<not> response_ok st \<longrightarrow>
            outcome (onRequestGet env pf) =
              Responded \<lparr>status = 502, headers = CORS_HEADERS,
                body = JsonText (JObj [(''error'',
                  JStr (''Failed to reach Ecowitt API: Error: HTTP '' @ show_nat st))])\<rparr>
            \<and> kv_after (onRequestGet env pf) = WEATHER_KV env)
       \<and> (fetchEcowitt (fetch pf) url = Inl reason \<longrightarrow>
            outcome (onRequestGet env pf) =
              Responded \<lparr>status = 502, headers = CORS_HEADERS,
                body = JsonText (JObj [(''error'',
                  JStr (''Failed to reach Ecowitt API: '' @ error_string reason))])\<rparr>
            \<and> kv_after (onRequestGet env pf) = WEATHER_KV env)
       \<and> (fetchEcowitt (fetch pf) url = Inr v \<and> \<not> nullish v \<and> js_get v ''code'' \<noteq> JNum (Fin 0) \<longrightarrow>
            outcome (onRequestGet env pf) =
              Responded \<lparr>status = 502, headers = CORS_HEADERS,
                body = JSON_stringify (JObj [(''error'',
                  if truthy (js_get v ''msg'') then js_get v ''msg''
                  else JStr ''Ecowitt API returned an error.'')])\<rparr>
            \<and> kv_after (onRequestGet env pf) = WEATHER_KV env)"
proof -
  have a: "outcome (onRequestGet env pf) =
              Responded \<lparr>status = 502, headers = CORS_HEADERS,
                body = JsonText (JObj [(''error'',
                  JStr (''Failed to reach Ecowitt API: '' @ error_string r))])\<rparr>
            \<and> kv_after (onRequestGet env pf) = WEATHER_KV env"
    if "fetchEcowitt (fetch pf) url = Inl r" for r
    using assms that by (simp add: onRequestGet_def Let_def jsonResponse_def JSON_stringify_def)
  have b: "outcome (onRequestGet env pf) =
              Responded \<lparr>status = 502, headers = CORS_HEADERS,
                body = JSON_stringify (JObj [(''error'',
                  if truthy (js_get v ''msg'') then js_get v ''msg''
                  else JStr ''Ecowitt API returned an error.'')])\<rparr>
            \<and> kv_after (onRequestGet env pf) = WEATHER_KV env"
    if "fetchEcowitt (fetch pf) url = Inr v" "\<not> nullish v" "js_get v ''code'' \<noteq> JNum (Fin 0)"
    using assms that by (simp add: onRequestGet_def Let_def jsonResponse_def)
  have c: "outcome (onRequestGet env pf) =
              Responded \<lparr>status = 502, headers = CORS_HEADERS,
                body = JsonText (JObj [(''error'',
                  JStr (''Failed to reach Ecowitt API: Error: HTTP '' @ show_nat st))])\<rparr>
            \<and> kv_after (onRequestGet env pf) = WEATHER_KV env"
    if "fetch pf url = HttpResponse st b" "\<not> response_ok st"
    using a [OF fetchEcowitt_not_ok [of "fetch pf" url st b, OF that]]
    by (simp add: error_string_def)
  from a b c show ?thesis by blast
qed

text \<open>
  Upstream answers with status 503, and upstream answers with an error code of its own:
  the handler answers 502 both times, and the store is untouched.
\<close>

theorem current_reading_failure_502_witness:
  "fetch pf_down (real_time_url ''a'' ''k'' ''m'') = HttpResponse 503 Garbled
   \<and> \<not> response_ok 503
   \<and> outcome (onRequestGet env0 pf_down) =
       Responded \<lparr>status = 502, headers = CORS_HEADERS,
         body = JsonText (JObj [(''error'', JStr ''Failed to reach Ecowitt API: Error: HTTP 503'')])\<rparr>
   \<and> kv_after (onRequestGet env0 pf_down) = Some kv_empty
   \<and> fetchEcowitt (fetch pf_api_error) (real_time_url ''a'' ''k'' ''m'') = Inr api_error_body
   \<and> js_get api_error_body ''code'' = JNum (Fin 40010)
   \<and> outcome (onRequestGet env0 pf_api_error) =
       Responded \<lparr>status = 502, headers = CORS_HEADERS,
         body = JsonText (JObj [(''error'', JStr ''Illegal parameter'')])\<rparr>
   \<and> kv_after (onRequestGet env0 pf_api_error) = Some kv_empty"
proof -
  have e: "\<not> unset (ECOWITT_API_KEY env0)" "\<not> unset (ECOWITT_APPLICATION_KEY env0)"
    "\<not> unset (ECOWITT_DEVICE_MAC env0)"
    and u: "real_time_url ''a'' ''k'' ''m''
       = real_time_url (var (ECOWITT_APPLICATION_KEY env0)) (var (ECOWITT_API_KEY env0))
           (var (ECOWITT_DEVICE_MAC env0))"
    and k: "WEATHER_KV env0 = Some kv_empty"
    by (simp_all add: env0_def unset_def var_def)
  have f: "fetch pf_down (real_time_url ''a'' ''k'' ''m'') = HttpResponse 503 Garbled"
    by (simp add: pf_down_def)
  have n: "\<not> response_ok 503" by (simp add: response_ok_def)
  have g: "fetchEcowitt (fetch pf_api_error) (real_time_url ''a'' ''k'' ''m'') = Inr api_error_body"
    by (simp add: fetchEcowitt_def pf_api_error_def pf_down_def response_ok_def)
  have c: "js_get api_error_body ''code'' = JNum (Fin 40010)"
    "\<not> nullish api_error_body" "js_get api_error_body ''code'' \<noteq> JNum (Fin 0)"
    "js_get api_error_body ''msg'' = JStr ''Illegal parameter''"
    by (simp_all add: api_error_body_def nullish_def)
  have down: "outcome (onRequestGet env0 pf_down) =
              Responded \<lparr>status = 502, headers = CORS_HEADERS,
                body = JsonText (JObj [(''error'',
                  JStr (''Failed to reach Ecowitt API: Error: HTTP '' @ show_nat 503))])\<rparr>
            \<and> kv_after (onRequestGet env0 pf_down) = WEATHER_KV env0"
    using current_reading_failure_502 [OF e u, of pf_down 503 Garbled] f n by blast
  have api: "outcome (onRequestGet env0 pf_api_error) =
              Responded \<lparr>status = 502, headers = CORS_HEADERS,
                body = JSON_stringify (JObj [(''error'',
                  if truthy (js_get api_error_body ''msg'') then js_get api_error_body ''msg''
                  else JStr ''Ecowitt API returned an error.'')])\<rparr>
            \<and> kv_after (onRequestGet env0 pf_api_error) = WEATHER_KV env0"
    using current_reading_failure_502 [OF e u, of pf_api_error _ _ _ api_error_body] g c(2,3)
    by blast
  from down api f n g c(1) show ?thesis
    by (simp add: show_503 k c(4) JSON_stringify_def)
qed

text \<open>
  A body that is the JSON value \<^verbatim>\<open>null\<close> has no \<^verbatim>\<open>code\<close> to read: the handler
  rejects with the TypeError. The theorem above leaves that body out.
\<close>

lemma null_body_uncaught:
  assumes "\<not> unset (ECOWITT_API_KEY env)" "\<not> unset (ECOWITT_APPLICATION_KEY env)"
    "\<not> unset (ECOWITT_DEVICE_MAC env)"
    and "fetchEcowitt (fetch pf)
           (real_time_url (var (ECOWITT_APPLICATION_KEY env)) (var (ECOWITT_API_KEY env))
              (var (ECOWITT_DEVICE_MAC env))) = Inr JNull"
  shows "outcome (onRequestGet env pf) = Uncaught (JsError ''TypeError'' ''Cannot read properties of null'')
       \<and> kv_after (onRequestGet env pf) = WEATHER_KV env"
  using assms by (simp add: onRequestGet_def Let_def nullish_def)

section \<open>A failing history call\<close>

lemma newer_sample: "newer (now - 172800000) (sample now v) = Inr True"
  by (simp add: newer_def sample_def nullish_def js_gt_def)

lemma push_adds:
  assumes "push h k s = Inr h'"
  shows "\<exists>ys. js_get h' k = JArr ys \<and> s \<in> set ys"
  using assms by (elim push_Inr) (simp add: map_of_put_prop)

lemma push_keeps:
  assumes "push h k s0 = Inr h'" "js_get h k' = JArr xs" "s \<in> set xs"
  shows "\<exists>ys. js_get h' k' = JArr ys \<and> s \<in> set ys"
  using assms by (elim push_Inr) (auto simp: map_of_put_prop)

lemma trim_keeps:
  assumes "trim h k c = Inr h'" "js_get h k' = JArr xs" "s \<in> set xs" "newer c s = Inr True"
  shows "\<exists>ys. js_get h' k' = JArr ys \<and> s \<in> set ys"
proof -
  from assms(1) obtain ps zs ys where h: "h = JObj ps" "js_get h k = JArr zs"
    "filter_js (newer c) zs = Inr ys" "h' = JObj (put_prop ps k (JArr ys))"
    by (rule trim_Inr)
  show ?thesis
  proof (cases "k' = k")
    case True
    with h assms have "s \<in> set ys" using filter_js_mem [OF h(3), of s] by simp
    with True h show ?thesis by (simp add: map_of_put_prop)
  next
    case False
    with h assms show ?thesis by (simp add: map_of_put_prop)
  qed
qed

lemma appended_samples_retained:
  assumes "append_and_trim H now rt = Inr h"
  shows "(\<forall>p. parseEcowittValue (opt_get (opt_get rt ''pressure'') ''relative'') = Inr (Some p)
            \<longrightarrow> (\<exists>xs. js_get h ''pressure'' = JArr xs \<and> sample now (inHgToHPa p) \<in> set xs))
       \<and> (\<forall>t. parseEcowittValue (opt_get (opt_get rt ''outdoor'') ''temperature'') = Inr (Some t)
            \<longrightarrow> (\<exists>xs. js_get h ''temperature'' = JArr xs \<and> sample now (fToC t) \<in> set xs))"
proof -
  from assms obtain rp rtm h1 h2 h3 where
    rp: "parseEcowittValue (opt_get (opt_get rt ''pressure'') ''relative'') = Inr rp"
    and rtm: "parseEcowittValue (opt_get (opt_get rt ''outdoor'') ''temperature'') = Inr rtm"
    and h1: "(case rp of None \<Rightarrow> Inr H
              | Some p \<Rightarrow> push H ''pressure'' (sample now (inHgToHPa p))) = Inr h1"
    and h2: "(case rtm of None \<Rightarrow> Inr h1
              | Some t \<Rightarrow> push h1 ''temperature'' (sample now (fToC t))) = Inr h2"
    and h3: "trim h2 ''pressure'' (now - 172800000) = Inr h3"
    and h: "trim h3 ''temperature'' (now - 172800000) = Inr h"
    by (auto simp: append_and_trim_def bind_r_def MAX_HISTORY_HOURS_def Let_def split: sum.splits)
  have pres: "\<exists>xs. js_get h ''pressure'' = JArr xs \<and> sample now (inHgToHPa p) \<in> set xs"
    if "rp = Some p" for p
  proof -
    from h1 that have "\<exists>ys. js_get h1 ''pressure'' = JArr ys \<and> sample now (inHgToHPa p) \<in> set ys"
      by (simp add: push_adds)
    then have "\<exists>ys. js_get h2 ''pressure'' = JArr ys \<and> sample now (inHgToHPa p) \<in> set ys"
      using h2 by (cases rtm) (auto dest: push_keeps)
    then have "\<exists>ys. js_get h3 ''pressure'' = JArr ys \<and> sample now (inHgToHPa p) \<in> set ys"
      using trim_keeps [OF h3 _ _ newer_sample] by blast
    then show ?thesis
      using trim_keeps [OF h _ _ newer_sample] by blast
  qed
  have temp: "\<exists>xs. js_get h ''temperature'' = JArr xs \<and> sample now (fToC t) \<in> set xs"
    if "rtm = Some t" for t
  proof -
    from h2 that have "\<exists>ys. js_get h2 ''temperature'' = JArr ys \<and> sample now (fToC t) \<in> set ys"
      by (simp add: push_adds)
    then have "\<exists>ys. js_get h3 ''temperature'' = JArr ys \<and> sample now (fToC t) \<in> set ys"
      using trim_keeps [OF h3 _ _ newer_sample] by blast
    then show ?thesis
      using trim_keeps [OF h _ _ newer_sample] by blast
  qed
  from pres temp rp rtm show ?thesis by simp
qed

lemma update_fresh:
  "fst (updateTrendHistory kv_empty now0 reading0) = Inr history_fresh"
  by (simp add: history_defs value_defs parser_defs scenario_defs)

lemma fetch_history_down:
  "fetchEcowitt (fetch pf_history_down) (real_time_url ''a'' ''k'' ''m'') = Inr realtime_body
   \<and> fetchEcowitt (fetch pf_history_down) (buildHistoryUrl pf_history_down ''a'' ''k'' ''m'')
       = Inl (JsError ''Error'' ''HTTP 503'')"
  by (simp add: handler_defs handler_scenario_defs show_503 Let_def)

text \<open>
  Claim C5, as stated, fails when no namespace is bound: the current reading is there,
  with a pressure of 29.8, the history call fails, and the handler answers 200 with
  \<^verbatim>\<open>history: null\<close> and with empty trends, which hold no new sample.
\<close>

theorem history_failure_counterexample:
  "fetchEcowitt (fetch pf_history_down) (real_time_url ''a'' ''k'' ''m'') = Inr realtime_body
   \<and> fetchEcowitt (fetch pf_history_down) (buildHistoryUrl pf_history_down ''a'' ''k'' ''m'')
       = Inl (JsError ''Error'' ''HTTP 503'')
   \<and> parseEcowittValue (opt_get (opt_get reading0 ''pressure'') ''relative'') = Inr (Some (Fin 29.8))
   \<and> outcome (onRequestGet env_no_kv pf_history_down) =
       Responded \<lparr>status = 200, headers = CORS_HEADERS,
         body = JsonText (JObj [(''realtime'', reading0), (''history'', JNull),
                                (''history_error'', JObj [(''msg'', JStr ''HTTP 503'')]),
                                (''trends'', JObj [(''pressure'', JArr []),
                                                   (''temperature'', JArr [])])])\<rparr>"
proof -
  have p: "parseEcowittValue (opt_get (opt_get reading0 ''pressure'') ''relative'')
             = Inr (Some (Fin 29.8))"
    by (simp add: value_defs parser_defs reading0_def)
  have e: "\<not> unset (ECOWITT_API_KEY env_no_kv)" "\<not> unset (ECOWITT_APPLICATION_KEY env_no_kv)"
    "\<not> unset (ECOWITT_DEVICE_MAC env_no_kv)" "WEATHER_KV env_no_kv = None"
    "var (ECOWITT_API_KEY env_no_kv) = ''k''" "var (ECOWITT_APPLICATION_KEY env_no_kv) = ''a''"
    "var (ECOWITT_DEVICE_MAC env_no_kv) = ''m''"
    by (simp_all add: env_no_kv_def env0_def unset_def var_def)
  have j: "json_of reading0 = reading0" "reading0 \<noteq> JUndefined" by (simp_all add: reading0_def)
  have o: "outcome (onRequestGet env_no_kv pf_history_down) =
       Responded \<lparr>status = 200, headers = CORS_HEADERS,
         body = JsonText (JObj [(''realtime'', reading0), (''history'', JNull),
                                (''history_error'', JObj [(''msg'', JStr ''HTTP 503'')]),
                                (''trends'', JObj [(''pressure'', JArr []),
                                                   (''temperature'', JArr [])])])\<rparr>"
    using fetch_history_down
    by (simp add: onRequestGet_def e Let_def jsonResponse_def JSON_stringify_def
          realtime_body_def nullish_def empty_history_def j)
  from fetch_history_down p o show ?thesis by simp
qed

text \<open>
  Claim C5, amended. With the credentials set, a current reading whose \<^verbatim>\<open>code\<close> is 0
  and a history call that rejects or fulfils with a \<^verbatim>\<open>code\<close> other than 0: when a
  namespace is bound and \<^verbatim>\<open>updateTrendHistory\<close> returns a history \<open>h\<close> on it, the
  handler answers with status 200 and a body whose \<^verbatim>\<open>realtime\<close> is the data of the
  current reading, whose \<^verbatim>\<open>history\<close> is \<^verbatim>\<open>null\<close> and whose \<^verbatim>\<open>trends\<close> is \<open>h\<close>; and
  \<open>h\<close> holds the new sample of each metric whose current value the parser returns.
\<close>

theorem history_failure_degrades:
  assumes "\<not> unset (ECOWITT_API_KEY env)" "\<not> unset (ECOWITT_APPLICATION_KEY env)"
    "\<not> unset (ECOWITT_DEVICE_MAC env)"
    and "fetchEcowitt (fetch pf)
           (real_time_url (var (ECOWITT_APPLICATION_KEY env)) (var (ECOWITT_API_KEY env))
              (var (ECOWITT_DEVICE_MAC env))) = Inr v"
      "js_get v ''code'' = JNum (Fin 0)"
    and "hr = fetchEcowitt (fetch pf)
           (buildHistoryUrl pf (var (ECOWITT_APPLICATION_KEY env)) (var (ECOWITT_API_KEY env))
              (var (ECOWITT_DEVICE_MAC env)))"
      "(\<exists>r. hr = Inl r) \<or> (\<exists>w. hr = Inr w \<and> opt_get w ''code'' \<noteq> JNum (Fin 0))"
    and "WEATHER_KV env = Some kv"
      "fst (updateTrendHistory kv (update_clock pf) (js_get v ''data'')) = Inr h"
  shows "(\<exists>herr. outcome (onRequestGet env pf) =
            Responded \<lparr>status = 200, headers = CORS_HEADERS,
              body = JSON_stringify (JObj [(''realtime'', js_get v ''data''), (''history'', JNull),
                                           (''history_error'', herr), (''trends'', h)])\<rparr>)
       \<and> (\<forall>p. parseEcowittValue (opt_get (opt_get (js_get v ''data'') ''pressure'') ''relative'')
                 = Inr (Some p)
            \<longrightarrow> (\<exists>xs. js_get h ''pressure'' = JArr xs
                       \<and> sample (update_clock pf) (inHgToHPa p) \<in> set xs))
       \<and> (\<forall>t. parseEcowittValue (opt_get (opt_get (js_get v ''data'') ''outdoor'') ''temperature'')
                 = Inr (Some t)
            \<longrightarrow> (\<exists>xs. js_get h ''temperature'' = JArr xs
                       \<and> sample (update_clock pf) (fToC t) \<in> set xs))"
proof -
  from assms(9) obtain kv' where
    u: "updateTrendHistory kv (update_clock pf) (js_get v ''data'') = (Inr h, kv')"
    by (cases "updateTrendHistory kv (update_clock pf) (js_get v ''data'')") simp
  note nn = js_get_JNum_not_nullish [OF assms(5)]
  have resp: "\<exists>herr. outcome (onRequestGet env pf) =
            Responded \<lparr>status = 200, headers = CORS_HEADERS,
              body = JSON_stringify (JObj [(''realtime'', js_get v ''data''), (''history'', JNull),
                                           (''history_error'', herr), (''trends'', h)])\<rparr>"
    using assms(1-8) u nn
    by (auto simp: onRequestGet_def Let_def jsonResponse_def)
  from assms(9) have "append_and_trim (fst (stored_history kv)) (update_clock pf) (js_get v ''data'') = Inr h"
    by (simp add: updateTrendHistory_Inr)
  from appended_samples_retained [OF this] resp show ?thesis by blast
qed

text \<open>The history call answers 503, the store is empty and bound.\<close>

theorem history_failure_degrades_witness:
  "fetchEcowitt (fetch pf_history_down) (real_time_url ''a'' ''k'' ''m'') = Inr realtime_body
   \<and> fetchEcowitt (fetch pf_history_down) (buildHistoryUrl pf_history_down ''a'' ''k'' ''m'')
       = Inl (JsError ''Error'' ''HTTP 503'')
   \<and> fst (updateTrendHistory kv_empty now0 reading0) = Inr history_fresh
   \<and> (\<exists>herr. outcome (onRequestGet env0 pf_history_down) =
            Responded \<lparr>status = 200, headers = CORS_HEADERS,
              body = JSON_stringify (JObj [(''realtime'', reading0), (''history'', JNull),
                                           (''history_error'', herr), (''trends'', history_fresh)])\<rparr>)
   \<and> (\<exists>xs. js_get history_fresh ''pressure'' = JArr xs
           \<and> sample now0 (inHgToHPa (Fin 29.8)) \<in> set xs)"
proof -
  have p: "parseEcowittValue (opt_get (opt_get reading0 ''pressure'') ''relative'')
             = Inr (Some (Fin 29.8))"
    by (simp add: value_defs parser_defs reading0_def)
  have d: "js_get realtime_body ''data'' = reading0" "\<not> nullish realtime_body"
    "js_get realtime_body ''code'' = JNum (Fin 0)"
    by (simp_all add: realtime_body_def nullish_def)
  have c: "update_clock pf_history_down = now0"
    by (simp add: pf_history_down_def pf_down_def)
  have e: "\<not> unset (ECOWITT_API_KEY env0)" "\<not> unset (ECOWITT_APPLICATION_KEY env0)"
    "\<not> unset (ECOWITT_DEVICE_MAC env0)" "WEATHER_KV env0 = Some kv_empty"
    "var (ECOWITT_API_KEY env0) = ''k''" "var (ECOWITT_APPLICATION_KEY env0) = ''a''"
    "var (ECOWITT_DEVICE_MAC env0) = ''m''"
    by (simp_all add: env0_def unset_def var_def)
  from fetch_history_down have f1:
    "fetchEcowitt (fetch pf_history_down)
       (real_time_url (var (ECOWITT_APPLICATION_KEY env0)) (var (ECOWITT_API_KEY env0))
          (var (ECOWITT_DEVICE_MAC env0))) = Inr realtime_body"
    by (simp add: e)
  have f2: "(\<exists>r. fetchEcowitt (fetch pf_history_down)
         (buildHistoryUrl pf_history_down (var (ECOWITT_APPLICATION_KEY env0))
            (var (ECOWITT_API_KEY env0)) (var (ECOWITT_DEVICE_MAC env0))) = Inl r)
      \<or> (\<exists>w. fetchEcowitt (fetch pf_history_down)
         (buildHistoryUrl pf_history_down (var (ECOWITT_APPLICATION_KEY env0))
            (var (ECOWITT_API_KEY env0)) (var (ECOWITT_DEVICE_MAC env0))) = Inr w
             \<and> opt_get w ''code'' \<noteq> JNum (Fin 0))"
    using fetch_history_down by (simp add: e)
  have u: "fst (updateTrendHistory kv_empty (update_clock pf_history_down)
                  (js_get realtime_body ''data'')) = Inr history_fresh"
    using update_fresh by (simp add: c d)
  note w = history_failure_degrades [OF e(1-3) f1 d(3) refl f2 e(4) u]
  from w p show ?thesis
    using fetch_history_down update_fresh by (simp add: c d)
qed

section \<open>No namespace bound\<close>

text \<open>
  Claim C6, as stated, fails when the current reading fails: with no namespace bound and
  upstream answering 503, the handler answers 502, not 200.
\<close>

theorem no_persistence_counterexample:
  "WEATHER_KV env_no_kv = None
   \<and> outcome (onRequestGet env_no_kv pf_down) =
       Responded \<lparr>status = 502, headers = CORS_HEADERS,
         body = JsonText (JObj [(''error'', JStr ''Failed to reach Ecowitt API: Error: HTTP 503'')])\<rparr>"
  by (simp add: handler_defs handler_scenario_defs show_503 Let_def JSON_stringify_def)

text \<open>
  Claim C6, amended. With the credentials set and a current reading whose \<^verbatim>\<open>code\<close> is
  0, when no namespace is bound the handler answers with status 200 and the trends
  \<^verbatim>\<open>{ pressure: [], temperature: [] }\<close>, whatever the history call came to, and there
  is no namespace afterwards either.
\<close>

theorem no_persistence_empty_trends:
  assumes "\<not> unset (ECOWITT_API_KEY env)" "\<not> unset (ECOWITT_APPLICATION_KEY env)"
    "\<not> unset (ECOWITT_DEVICE_MAC env)"
    and "fetchEcowitt (fetch pf)
           (real_time_url (var (ECOWITT_APPLICATION_KEY env)) (var (ECOWITT_API_KEY env))
              (var (ECOWITT_DEVICE_MAC env))) = Inr v"
      "js_get v ''code'' = JNum (Fin 0)"
    and "WEATHER_KV env = None"
  shows "(\<exists>hdata herr. outcome (onRequestGet env pf) =
            Responded \<lparr>status = 200, headers = CORS_HEADERS,
              body = JSON_stringify
                (JObj [(''realtime'', js_get v ''data''), (''history'', hdata),
                       (''history_error'', herr),
                       (''trends'', JObj [(''pressure'', JArr []), (''temperature'', JArr [])])])\<rparr>)
         \<and> kv_after (onRequestGet env pf) = None"
  using assms js_get_JNum_not_nullish [OF assms(5)]
  by (auto simp: onRequestGet_def Let_def jsonResponse_def empty_history_def split: sum.splits)

lemma fetch_up:
  "fetchEcowitt (fetch pf_up) (real_time_url ''a'' ''k'' ''m'') = Inr realtime_body
   \<and> fetchEcowitt (fetch pf_up) (buildHistoryUrl pf_up ''a'' ''k'' ''m'') = Inr history_body"
  by (simp add: handler_defs handler_scenario_defs Let_def)

text \<open>Both upstream calls succeed and no namespace is bound.\<close>

theorem no_persistence_empty_trends_witness:
  "fetchEcowitt (fetch pf_up) (real_time_url ''a'' ''k'' ''m'') = Inr realtime_body
   \<and> WEATHER_KV env_no_kv = None
   \<and> (\<exists>hdata herr. outcome (onRequestGet env_no_kv pf_up) =
            Responded \<lparr>status = 200, headers = CORS_HEADERS,
              body = JSON_stringify
                (JObj [(''realtime'', reading0), (''history'', hdata),
                       (''history_error'', herr),
                       (''trends'', JObj [(''pressure'', JArr []), (''temperature'', JArr [])])])\<rparr>)
   \<and> kv_after (onRequestGet env_no_kv pf_up) = None"
proof -
  have e: "\<not> unset (ECOWITT_API_KEY env_no_kv)" "\<not> unset (ECOWITT_APPLICATION_KEY env_no_kv)"
    "\<not> unset (ECOWITT_DEVICE_MAC env_no_kv)" "WEATHER_KV env_no_kv = None"
    "var (ECOWITT_API_KEY env_no_kv) = ''k''" "var (ECOWITT_APPLICATION_KEY env_no_kv) = ''a''"
    "var (ECOWITT_DEVICE_MAC env_no_kv) = ''m''"
    by (simp_all add: env_no_kv_def env0_def unset_def var_def)
  have d: "js_get realtime_body ''data'' = reading0" "\<not> nullish realtime_body"
    "js_get realtime_body ''code'' = JNum (Fin 0)"
    by (simp_all add: realtime_body_def nullish_def)
  from fetch_up have f1:
    "fetchEcowitt (fetch pf_up)
       (real_time_url (var (ECOWITT_APPLICATION_KEY env_no_kv)) (var (ECOWITT_API_KEY env_no_kv))
          (var (ECOWITT_DEVICE_MAC env_no_kv))) = Inr realtime_body"
    by (simp add: e)
  from no_persistence_empty_trends [OF e(1-3) f1 d(3) e(4)] fetch_up e(4)
  show ?thesis by (simp add: d)
qed

section \<open>Values with a unit after the number\<close>




















section \<open>A stored value that is no history\<close>

text \<open>
  What the read does cover: when \<^verbatim>\<open>kv.get\<close> throws (the store is unreachable, the text
  is not JSON), when the key is not there, and when the stored value or one of its two
  fields is falsy, the history is the empty one.
\<close>

lemma unreadable_store_gives_empty_history:
  assumes "get_fails kv \<or> entries kv KV_HISTORY_KEY = None
     \<or> (\<exists>e. entries kv KV_HISTORY_KEY = Some e
           \<and> (content e = Garbled
              \<or> (\<exists>v. content e = JsonText v
                    \<and> (\<not> truthy v \<or> \<not> truthy (js_get v ''pressure'')
                         \<or> \<not> truthy (js_get v ''temperature'')))))"
  shows "fst (stored_history kv) = empty_history"
  using assms by (auto simp: stored_history_def kv_get_def Let_def)

text \<open>
  And from the empty history the update returns the new samples, one for each metric
  whose current value the parser returns.
\<close>

lemma empty_history_appends:
  assumes "parseEcowittValue (opt_get (opt_get rt ''pressure'') ''relative'') = Inr rp"
    and "parseEcowittValue (opt_get (opt_get rt ''outdoor'') ''temperature'') = Inr rtm"
  shows "append_and_trim empty_history now rt =
           Inr (JObj [(''pressure'',
                       JArr (case rp of None \<Rightarrow> [] | Some p \<Rightarrow> [sample now (inHgToHPa p)])),
                      (''temperature'',
                       JArr (case rtm of None \<Rightarrow> [] | Some t \<Rightarrow> [sample now (fToC t)]))])"
proof -
  have n: "newer (now - 172800000) (sample now v) = Inr True" for v
    by (rule newer_sample)
  show ?thesis
    using assms
    by (cases rp; cases rtm)
       (simp_all add: append_and_trim_def bind_r_def MAX_HISTORY_HOURS_def Let_def
          empty_history_def push_def trim_def n)
qed

text \<open>
  Claim C2 at the stored value \<^verbatim>\<open>{ "pressure": 1, "temperature": 1 }\<close>, which is no
  history: both fields are truthy, so the value passes the test after the read and
  becomes the history; a number has no \<^verbatim>\<open>push\<close>, the call throws a TypeError outside
  the two \<^verbatim>\<open>try\<close> blocks, and \<^verbatim>\<open>updateTrendHistory\<close> rejects with it instead of
  starting from the empty history.
\<close>

theorem history_without_arrays_throws:
  "fst (updateTrendHistory (kv_holding (JsonText history_no_arrays)) now0 reading0)
     = Inl (JsError ''TypeError'' ''history.pressure.push is not a function'')"
  by (simp add: history_defs value_defs parser_defs scenario_defs)

text \<open>Without a current reading the same stored value fails one step later, in the trim.\<close>

lemma trim_of_non_array_throws:
  "fst (updateTrendHistory (kv_holding (JsonText history_no_arrays)) now0 JUndefined)
     = Inl (JsError ''TypeError'' ''history.pressure.filter is not a function'')"
  by (simp add: history_defs value_defs parser_defs scenario_defs)

section \<open>The other copy of the handler, on the same requests\<close>

text \<open>
  Up to the step that looks at the history call the two copies are the same: without
  credentials, and with a current reading that fails, they answer alike and leave the
  namespace alone alike.
\<close>

lemma other_copy_same_before_history:
  assumes "unset (ECOWITT_API_KEY env) \<or> unset (ECOWITT_APPLICATION_KEY env)
             \<or> unset (ECOWITT_DEVICE_MAC env)
      \<or> (\<exists>r. fetchEcowitt (fetch pf)
           (real_time_url (var (ECOWITT_APPLICATION_KEY env)) (var (ECOWITT_API_KEY env))
              (var (ECOWITT_DEVICE_MAC env))) = Inl r)
      \<or> (\<exists>v. fetchEcowitt (fetch pf)
           (real_time_url (var (ECOWITT_APPLICATION_KEY env)) (var (ECOWITT_API_KEY env))
              (var (ECOWITT_DEVICE_MAC env))) = Inr v
            \<and> (nullish v \<or> js_get v ''code'' \<noteq> JNum (Fin 0)))"
  shows "outcome (onRequestGet_seconds env pf) = outcome (onRequestGet env pf)
       \<and> kv_after (onRequestGet_seconds env pf) = kv_after (onRequestGet env pf)"
  using assms
  by (auto simp: onRequestGet_seconds_def onRequestGet_def Let_def)

text \<open>
  With a failing history call the other copy answers 200 with \<^verbatim>\<open>history: null\<close>, the
  current reading and the updated trends as well.
\<close>

lemma history_failure_degrades_other_copy:
  assumes "\<not> unset (ECOWITT_API_KEY env)" "\<not> unset (ECOWITT_APPLICATION_KEY env)"
    "\<not> unset (ECOWITT_DEVICE_MAC env)"
    and "fetchEcowitt (fetch pf)
           (real_time_url (var (ECOWITT_APPLICATION_KEY env)) (var (ECOWITT_API_KEY env))
              (var (ECOWITT_DEVICE_MAC env))) = Inr v"
      "js_get v ''code'' = JNum (Fin 0)"
    and "hr = fetchEcowitt (fetch pf)
           (buildHistoryUrl_seconds pf (var (ECOWITT_APPLICATION_KEY env))
              (var (ECOWITT_API_KEY env)) (var (ECOWITT_DEVICE_MAC env)))"
      "(\<exists>r. hr = Inl r) \<or> (\<exists>w. hr = Inr w \<and> opt_get w ''code'' \<noteq> JNum (Fin 0))"
    and "WEATHER_KV env = Some kv"
      "fst (updateTrendHistory kv (update_clock pf) (js_get v ''data'')) = Inr h"
  shows "outcome (onRequestGet_seconds env pf) =
            Responded \<lparr>status = 200, headers = CORS_HEADERS,
              body = JSON_stringify (JObj [(''realtime'', js_get v ''data''), (''history'', JNull),
                                           (''trends'', h)])\<rparr>"
proof -
  from assms(9) obtain kv' where
    u: "updateTrendHistory kv (update_clock pf) (js_get v ''data'') = (Inr h, kv')"
    by (cases "updateTrendHistory kv (update_clock pf) (js_get v ''data'')") simp
  show ?thesis
    using assms(1-8) u js_get_JNum_not_nullish [OF assms(5)]
    by (auto simp: onRequestGet_seconds_def Let_def jsonResponse_def)
qed

text \<open>And without a namespace its trends are empty as well.\<close>

lemma no_persistence_other_copy:
  assumes "\<not> unset (ECOWITT_API_KEY env)" "\<not> unset (ECOWITT_APPLICATION_KEY env)"
    "\<not> unset (ECOWITT_DEVICE_MAC env)"
    and "fetchEcowitt (fetch pf)
           (real_time_url (var (ECOWITT_APPLICATION_KEY env)) (var (ECOWITT_API_KEY env))
              (var (ECOWITT_DEVICE_MAC env))) = Inr v"
      "js_get v ''code'' = JNum (Fin 0)"
    and "WEATHER_KV env = None"
  shows "(\<exists>hdata. outcome (onRequestGet_seconds env pf) =
            Responded \<lparr>status = 200, headers = CORS_HEADERS,
              body = JSON_stringify
                (JObj [(''realtime'', js_get v ''data''), (''history'', hdata),
                       (''trends'', JObj [(''pressure'', JArr []), (''temperature'', JArr [])])])\<rparr>)
         \<and> kv_after (onRequestGet_seconds env pf) = None"
  using assms js_get_JNum_not_nullish [OF assms(5)]
  by (auto simp: onRequestGet_seconds_def Let_def jsonResponse_def empty_history_def
        split: sum.splits)

end
